theory Spec2Isabelle
  imports Main "HOL-Library.Word"
begin

unbundle bit_operations_syntax

text \<open>
  A model of \<^verbatim>\<open>large_page.c\<close>, which moves the text region of a running process onto
  transparent huge pages: the status codes, the alignment and validation of a range, the
  probe of \<^verbatim>\<open>/sys/kernel/mm/transparent_hugepage/enabled\<close>, the remapping itself over a
  byte-level address space, the discovery of the text region through \<^verbatim>\<open>dl_iterate_phdr\<close>,
  and the entry points. What the code takes from the C library and the kernel is a
  parameter of the model: the outcome of each system call, the loaded objects, the files
  and \<^verbatim>\<open>regcomp\<close>.
\<close>

section \<open>Status codes\<close>

text \<open>
  \<^verbatim>\<open>map_status\<close> is a C enum declared in \<^verbatim>\<open>large_page.h\<close>, which is not among the
  sources. Its enumerators and their values are read off the table \<^verbatim>\<open>map_status_text\<close>
  of \<^verbatim>\<open>MapStatusStr\<close> in \<^verbatim>\<open>large_page.c\<close>: the table is indexed by
  \<^verbatim>\<open>((int)status << 1) + (fulltext & 1)\<close>, so the enumerator named at index \<open>2 * k\<close>
  has the value \<open>k\<close>. The code converts the enum to \<^verbatim>\<open>int\<close> and back
  (\<^verbatim>\<open>return -map_failed_to_stat_exe;\<close> in \<^verbatim>\<open>FindMapping\<close>, \<^verbatim>\<open>return -status;\<close> in
  \<^verbatim>\<open>FindTextRegion\<close>), so a status is an integer here, with one named constant per
  enumerator.
\<close>

type_synonym map_status = int

definition map_ok :: map_status where
  "map_ok = 0"

definition map_failed_to_open_thp_file :: map_status where
  "map_failed_to_open_thp_file = 1"

definition map_failed_to_stat_exe :: map_status where
  "map_failed_to_stat_exe = 2"

definition map_failed_to_open_exe :: map_status where
  "map_failed_to_open_exe = 3"

definition map_failed_to_map_exe_see_errno :: map_status where
  "map_failed_to_map_exe_see_errno = 4"

definition map_failed_to_find_text_section :: map_status where
  "map_failed_to_find_text_section = 5"

definition map_failed_to_unmap_exe_see_errno :: map_status where
  "map_failed_to_unmap_exe_see_errno = 6"

definition map_failed_to_close_exe_see_errno :: map_status where
  "map_failed_to_close_exe_see_errno = 7"

definition map_invalid_regex :: map_status where
  "map_invalid_regex = 8"

definition map_invalid_region_address :: map_status where
  "map_invalid_region_address = 9"

definition map_malformed_thp_file :: map_status where
  "map_malformed_thp_file = 10"

definition map_null_regex :: map_status where
  "map_null_regex = 11"

definition map_region_not_found :: map_status where
  "map_region_not_found = 12"

definition map_region_too_small :: map_status where
  "map_region_too_small = 13"

definition map_see_errno :: map_status where
  "map_see_errno = 14"

definition map_see_errno_madvise_tmem_failed :: map_status where
  "map_see_errno_madvise_tmem_failed = 15"

definition map_see_errno_madvise_tmem_munmap_nmem_failed :: map_status where
  "map_see_errno_madvise_tmem_munmap_nmem_failed = 16"

definition map_see_errno_madvise_tmem_munmaps_failed :: map_status where
  "map_see_errno_madvise_tmem_munmaps_failed = 17"

definition map_see_errno_madvise_tmem_munmap_tmem_failed :: map_status where
  "map_see_errno_madvise_tmem_munmap_tmem_failed = 18"

definition map_see_errno_mmap_tmem_failed :: map_status where
  "map_see_errno_mmap_tmem_failed = 19"

definition map_see_errno_mmap_tmem_munmap_nmem_failed :: map_status where
  "map_see_errno_mmap_tmem_munmap_nmem_failed = 20"

definition map_see_errno_mprotect_failed :: map_status where
  "map_see_errno_mprotect_failed = 21"

definition map_see_errno_mprotect_munmap_nmem_failed :: map_status where
  "map_see_errno_mprotect_munmap_nmem_failed = 22"

definition map_see_errno_mprotect_munmaps_failed :: map_status where
  "map_see_errno_mprotect_munmaps_failed = 23"

definition map_see_errno_mprotect_munmap_tmem_failed :: map_status where
  "map_see_errno_mprotect_munmap_tmem_failed = 24"

definition map_see_errno_munmap_nmem_failed :: map_status where
  "map_see_errno_munmap_nmem_failed = 25"

definition map_unsupported_platform :: map_status where
  "map_unsupported_platform = 26"

text \<open>The table of \<^verbatim>\<open>MapStatusStr\<close>, and the lookup as the code writes it.\<close>

definition map_status_text :: "string list" where
  "map_status_text =
    [''map_ok'',
       ''ok'',
     ''map_failed_to_open_thp_file'',
       ''failed to open thp enablement status file'',
     ''map_failed_to_stat_exe'',
       ''failed to stat executable'',
     ''map_failed_to_open_exe'',
       ''failed to open executable'',
     ''map_failed_to_map_exe_see_errno'',
       ''failed to map executable'',
     ''map_failed_to_find_text_section'',
       ''failed to find text section'',
     ''map_failed_to_unmap_exe_see_errno'',
       ''failed to unmap executable'',
     ''map_failed_to_close_exe_see_errno'',
       ''failed to close executable'',
     ''map_invalid_regex'',
       ''invalid regex'',
     ''map_invalid_region_address'',
       ''invalid region boundaries'',
     ''map_malformed_thp_file'',
       ''malformed thp enablement status file'',
     ''map_null_regex'',
       ''regex was NULL'',
     ''map_region_not_found'',
       ''map region not found'',
     ''map_region_too_small'',
       ''map region too small'',
     ''map_see_errno'',
       ''see errno'',
     ''map_see_errno_madvise_tmem_failed'',
       ''madvise for destination failed'',
     ''map_see_errno_madvise_tmem_munmap_nmem_failed'',
       ''madvise for destination and unmapping of temporary failed'',
     ''map_see_errno_madvise_tmem_munmaps_failed'',
       ''madvise for destination and unmappings failed'',
     ''map_see_errno_madvise_tmem_munmap_tmem_failed'',
       ''madvise for destination and unmapping of destination failed'',
     ''map_see_errno_mmap_tmem_failed'',
       ''mapping of destination failed'',
     ''map_see_errno_mmap_tmem_munmap_nmem_failed'',
       ''mapping of destination and unmapping of temporary failed'',
     ''map_see_errno_mprotect_failed'',
       ''mprotect failed'',
     ''map_see_errno_mprotect_munmap_nmem_failed'',
       ''mprotect and unmapping of temporary failed'',
     ''map_see_errno_mprotect_munmaps_failed'',
       ''mprotect and unmappings failed'',
     ''map_see_errno_mprotect_munmap_tmem_failed'',
       ''mprotect and unmapping of destination failed'',
     ''map_see_errno_munmap_nmem_failed'',
       ''unmapping of temporary failed'',
     ''map_unsupported_platform'',
       ''mapping to large pages is not supported on this platform'']"

text \<open>
  An index outside the table is an out-of-bounds read in C; the model answers \<open>None\<close>
  there.
\<close>

definition MapStatusStr :: "map_status \<Rightarrow> bool \<Rightarrow> string option" where
  "MapStatusStr status fulltext =
    (let idx = 2 * status + (if fulltext then 1 else 0) in
     if 0 \<le> idx \<and> idx < int (length map_status_text)
     then Some (map_status_text ! nat idx) else None)"

section \<open>Address ranges, alignment and validation\<close>

text \<open>
  Pointers and \<^verbatim>\<open>uintptr_t\<close> are 64-bit words (the code prints them with \<^verbatim>\<open>%016lx\<close>);
  \<^verbatim>\<open>NULL\<close> is the word 0. The fields of \<^verbatim>\<open>mem_range\<close> are \<^verbatim>\<open>from\<close> and \<^verbatim>\<open>to\<close> in the
  source; both are reserved words of Isabelle, so they carry the prefix \<open>r_\<close>.
\<close>

type_synonym uintptr_t = "64 word"

record mem_range =
  r_from :: uintptr_t
  r_to :: uintptr_t

text \<open>\<^verbatim>\<open>#define HPS (2L * 1024 * 1024)\<close>\<close>

definition HPS :: uintptr_t where
  "HPS = 2 * 1024 * 1024"

definition largepage_align_down :: "uintptr_t \<Rightarrow> uintptr_t" where
  "largepage_align_down addr = addr AND NOT (HPS - 1)"

text \<open>The addition wraps around at \<open>2 ^ 64\<close>, as unsigned arithmetic does in C.\<close>

definition largepage_align_up :: "uintptr_t \<Rightarrow> uintptr_t" where
  "largepage_align_up addr = largepage_align_down (addr + HPS - 1)"

definition AlignRegionToPageBoundary :: "mem_range \<Rightarrow> mem_range" where
  "AlignRegionToPageBoundary r =
    r\<lparr>r_from := largepage_align_up (r_from r), r_to := largepage_align_down (r_to r)\<rparr>"

text \<open>
  \<^verbatim>\<open>r->from > r->to\<close> compares two pointers, that is, unsigned; \<^verbatim>\<open>r->to - r->from\<close> is a
  \<^verbatim>\<open>ptrdiff_t\<close>, compared with the \<^verbatim>\<open>long\<close> constant \<^verbatim>\<open>HPS\<close> as a signed number.
\<close>

definition CheckMemRange :: "mem_range \<Rightarrow> map_status" where
  "CheckMemRange r =
    (if r_from r = 0 \<or> r_to r = 0 \<or> r_from r > r_to r then map_invalid_region_address
     else if sint (r_to r - r_from r) < sint HPS then map_region_too_small
     else map_ok)"

section \<open>The transparent-huge-pages probe\<close>

text \<open>The white space of \<^verbatim>\<open>isspace\<close> in the C locale, which \<^verbatim>\<open>fscanf\<close> skips.\<close>

definition isspace :: "char \<Rightarrow> bool" where
  "isspace c =
    (c = CHR '' '' \<or> c = CHR 0x09 \<or> c = CHR 0x0A \<or> c = CHR 0x0B \<or> c = CHR 0x0C \<or> c = CHR 0x0D)"

text \<open>
  One \<^verbatim>\<open>%s\<close> directive: skip white space, then read the longest run of characters that
  are not white space. \<open>None\<close> is an input failure (the end of the file comes first);
  otherwise the token and the rest of the input.
\<close>

definition scan_s :: "string \<Rightarrow> (string \<times> string) option" where
  "scan_s inp =
    (let rest = dropWhile isspace inp in
     if rest = [] then None
     else Some (takeWhile (\<lambda>c. \<not> isspace c) rest, dropWhile (\<lambda>c. \<not> isspace c) rest))"

text \<open>
  \<^verbatim>\<open>fscanf(ifs, "%s %s %s", always, madvise, never)\<close> into three buffers of 16 bytes
  each, zero-initialised. A directive has no field width, so a token of 16 characters or
  more is written past the end of its buffer (the token and its terminating NUL need
  \<open>length + 1\<close> bytes): undefined behaviour in C, the fault \<open>buffer_overrun\<close> here. The
  result is the number of tokens stored, or \<^verbatim>\<open>EOF\<close> when the input ends before the first.
\<close>

datatype fault = buffer_overrun

definition EOF :: int where
  "EOF = - 1"

definition fscanf_sss :: "string \<Rightarrow> fault + (int \<times> string \<times> string \<times> string)" where
  "fscanf_sss inp =
    (case scan_s inp of
       None \<Rightarrow> Inr (EOF, [], [], [])
     | Some (t1, rest1) \<Rightarrow>
         if 16 \<le> length t1 then Inl buffer_overrun
         else (case scan_s rest1 of
            None \<Rightarrow> Inr (1, t1, [], [])
          | Some (t2, rest2) \<Rightarrow>
              if 16 \<le> length t2 then Inl buffer_overrun
              else (case scan_s rest2 of
                 None \<Rightarrow> Inr (2, t1, t2, [])
               | Some (t3, rest3) \<Rightarrow>
                   if 16 \<le> length t3 then Inl buffer_overrun
                   else Inr (3, t1, t2, t3))))"

text \<open>
  A buffer read as a C string ends at its first NUL byte; \<^verbatim>\<open>strcmp(buf, lit) == 0\<close> is
  \<open>c_str buf = lit\<close> for a literal without NUL.
\<close>

definition c_str :: "string \<Rightarrow> string" where
  "c_str buf = takeWhile (\<lambda>c. c \<noteq> CHR 0x00) buf"

text \<open>
  \<^verbatim>\<open>IsTransparentHugePagesEnabled(bool* result)\<close>. The parameters of the model:
  \<^item> \<open>enable_large_code_pages\<close>: whether the build defines the macro
    \<^verbatim>\<open>ENABLE_LARGE_CODE_PAGES\<close> to a non-zero value (the build files are not among the
    sources);
  \<^item> \<open>thp_file\<close>: the content of \<^verbatim>\<open>/sys/kernel/mm/transparent_hugepage/enabled\<close>, or
    \<open>None\<close> when \<^verbatim>\<open>fopen\<close> fails;
  \<^item> \<open>result0\<close>: what \<^verbatim>\<open>*result\<close> holds when the function is called.
  The result is the returned status with the final \<^verbatim>\<open>*result\<close>.
\<close>

definition IsTransparentHugePagesEnabled ::
    "bool \<Rightarrow> string option \<Rightarrow> bool \<Rightarrow> fault + (map_status \<times> bool)" where
  "IsTransparentHugePagesEnabled enable_large_code_pages thp_file result0 =
    (if enable_large_code_pages then
       (case thp_file of
          None \<Rightarrow> Inr (map_failed_to_open_thp_file, False)
        | Some content \<Rightarrow>
            (case fscanf_sss content of
               Inl f \<Rightarrow> Inl f
             | Inr (matched, always, madvise, never) \<Rightarrow>
                 if matched \<noteq> 3 then Inr (map_malformed_thp_file, False)
                 else if c_str always = ''[always]'' then Inr (map_ok, True)
                 else if c_str madvise = ''[madvise]'' then Inr (map_ok, True)
                 else if c_str never = ''[never]'' then Inr (map_ok, False)
                 else Inr (map_ok, False)))
     else Inr (map_unsupported_platform, result0))"

definition IsLargePagesEnabled ::
    "bool \<Rightarrow> string option \<Rightarrow> bool \<Rightarrow> fault + (map_status \<times> bool)" where
  "IsLargePagesEnabled enable_large_code_pages thp_file result0 =
    IsTransparentHugePagesEnabled enable_large_code_pages thp_file result0"

section \<open>The address space and the system calls\<close>

text \<open>
  The address space of the process, byte by byte: an address is unmapped (\<open>None\<close>) or
  holds a byte with the protection of its page and whether \<^verbatim>\<open>MADV_HUGEPAGE\<close> was advised
  for it.
\<close>

datatype prot_flag = PROT_READ | PROT_WRITE | PROT_EXEC

record vm_byte =
  content :: "8 word"
  prot :: "prot_flag set"
  hugepage :: bool

type_synonym address_space = "uintptr_t \<Rightarrow> vm_byte option"

text \<open>
  The \<open>len\<close> bytes that start at \<open>addr\<close>: the addresses whose offset from \<open>addr\<close>, in
  word arithmetic, is below \<open>len\<close>.
\<close>

definition in_range :: "uintptr_t \<Rightarrow> uintptr_t \<Rightarrow> uintptr_t \<Rightarrow> bool" where
  "in_range addr len a = (a - addr < len)"

text \<open>
  What the system calls below do to the address space when they succeed: a new
  anonymous region (its bytes are zero), a region removed, \<^verbatim>\<open>MADV_HUGEPAGE\<close> recorded, a
  protection changed, and bytes copied (the byte at \<open>dst + i\<close> becomes the byte at
  \<open>src + i\<close>, for every \<open>i < n\<close>).
\<close>

definition map_region ::
    "address_space \<Rightarrow> uintptr_t \<Rightarrow> uintptr_t \<Rightarrow> prot_flag set \<Rightarrow> address_space" where
  "map_region m addr len pr =
    (\<lambda>a. if in_range addr len a
         then Some \<lparr>content = 0, prot = pr, hugepage = False\<rparr> else m a)"

definition unmap_region :: "address_space \<Rightarrow> uintptr_t \<Rightarrow> uintptr_t \<Rightarrow> address_space" where
  "unmap_region m addr len = (\<lambda>a. if in_range addr len a then None else m a)"

definition advise_region :: "address_space \<Rightarrow> uintptr_t \<Rightarrow> uintptr_t \<Rightarrow> address_space" where
  "advise_region m addr len =
    (\<lambda>a. if in_range addr len a then map_option (\<lambda>b. b\<lparr>hugepage := True\<rparr>) (m a) else m a)"

definition protect_region ::
    "address_space \<Rightarrow> uintptr_t \<Rightarrow> uintptr_t \<Rightarrow> prot_flag set \<Rightarrow> address_space" where
  "protect_region m addr len pr =
    (\<lambda>a. if in_range addr len a then map_option (\<lambda>b. b\<lparr>prot := pr\<rparr>) (m a) else m a)"

definition copy_bytes ::
    "address_space \<Rightarrow> uintptr_t \<Rightarrow> uintptr_t \<Rightarrow> uintptr_t \<Rightarrow> address_space" where
  "copy_bytes m dst src n =
    (\<lambda>a. if in_range dst n a
         then map_option (\<lambda>b. b\<lparr>content := content (the (m (src + (a - dst))))\<rparr>) (m a)
         else m a)"

text \<open>
  The system calls are the kernel's, not this repository's. Whether a call succeeds, and
  where an \<^verbatim>\<open>mmap\<close> without \<^verbatim>\<open>MAP_FIXED\<close> places its region, is the kernel's decision:
  each model takes that decision as its first argument. A call that fails leaves the
  address space as it was.

  \<^verbatim>\<open>mmap(addr, len, pr, MAP_PRIVATE | MAP_ANONYMOUS [| MAP_FIXED], -1, 0)\<close>: \<open>place\<close> is
  \<open>None\<close> for \<^verbatim>\<open>MAP_FAILED\<close>, or the address of the new region.
\<close>

definition sys_mmap ::
    "uintptr_t option \<Rightarrow> address_space \<Rightarrow> uintptr_t \<Rightarrow> prot_flag set \<Rightarrow>
     uintptr_t option \<times> address_space" where
  "sys_mmap place m len pr =
    (case place of
       None \<Rightarrow> (None, m)
     | Some addr \<Rightarrow> (Some addr, map_region m addr len pr))"

definition sys_munmap ::
    "bool \<Rightarrow> address_space \<Rightarrow> uintptr_t \<Rightarrow> uintptr_t \<Rightarrow> int \<times> address_space" where
  "sys_munmap ok m addr len = (if ok then (0, unmap_region m addr len) else (- 1, m))"

text \<open>\<^verbatim>\<open>madvise(addr, len, MADV_HUGEPAGE)\<close>\<close>

definition sys_madvise ::
    "bool \<Rightarrow> address_space \<Rightarrow> uintptr_t \<Rightarrow> uintptr_t \<Rightarrow> int \<times> address_space" where
  "sys_madvise ok m addr len = (if ok then (0, advise_region m addr len) else (- 1, m))"

definition sys_mprotect ::
    "bool \<Rightarrow> address_space \<Rightarrow> uintptr_t \<Rightarrow> uintptr_t \<Rightarrow> prot_flag set \<Rightarrow>
     int \<times> address_space" where
  "sys_mprotect ok m addr len pr =
    (if ok then (0, protect_region m addr len pr) else (- 1, m))"

text \<open>Every byte of a region is mapped with the protection flag \<open>f\<close>.\<close>

definition accessible :: "prot_flag \<Rightarrow> address_space \<Rightarrow> uintptr_t \<Rightarrow> uintptr_t \<Rightarrow> bool" where
  "accessible f m addr len =
    (\<forall>a. in_range addr len a \<longrightarrow> (case m a of None \<Rightarrow> False | Some b \<Rightarrow> f \<in> prot b))"

text \<open>
  \<^verbatim>\<open>memcpy(dst, src, n)\<close>: the process is killed (\<open>None\<close>) when a source byte cannot be
  read or a destination byte cannot be written.
\<close>

definition memcpy ::
    "address_space \<Rightarrow> uintptr_t \<Rightarrow> uintptr_t \<Rightarrow> uintptr_t \<Rightarrow> address_space option" where
  "memcpy m dst src n =
    (if accessible PROT_READ m src n \<and> accessible PROT_WRITE m dst n
     then Some (copy_bytes m dst src n) else None)"

section \<open>Moving a region to large pages\<close>

text \<open>
  What the functions below act on: the address space, the diagnostics written to
  \<^verbatim>\<open>stderr\<close> (the two \<^verbatim>\<open>fprintf\<close> calls of \<^verbatim>\<open>AlignMoveRegionToLargePages\<close>, kept as values
  rather than formatted text) and, for the claims about which calls are made, the
  ranges \<^verbatim>\<open>MoveRegionToLargePages\<close> was called with.
\<close>

datatype diag =
    Found uintptr_t uintptr_t
  | Aligned uintptr_t uintptr_t uintptr_t

record world =
  mem :: address_space
  stderr :: "diag list"
  remap_calls :: "mem_range list"

text \<open>A call returns a status, or the process dies in it of a memory fault.\<close>

datatype outcome =
    Return map_status world
  | Segfault world

fun status_of :: "outcome \<Rightarrow> map_status option" where
  "status_of (Return status w) = Some status"
| "status_of (Segfault w) = None"

fun world_of :: "outcome \<Rightarrow> world" where
  "world_of (Return status w) = w"
| "world_of (Segfault w) = w"

text \<open>The kernel's decisions for the system calls of one \<^verbatim>\<open>MoveRegionToLargePages\<close>.\<close>

record kernel =
  mmap_nmem :: "uintptr_t option"
  mmap_tmem_ok :: bool
  madvise_ok :: bool
  mprotect_ok :: bool
  munmap_tmem_ok :: bool
  munmap_nmem_ok :: bool

text \<open>
  An \<^verbatim>\<open>mmap\<close> without \<^verbatim>\<open>MAP_FIXED\<close> never places its region over an existing mapping:
  the kernel's decision fits an address space when the scratch region it chooses is
  unmapped there.
\<close>

definition fresh_scratch :: "kernel \<Rightarrow> address_space \<Rightarrow> uintptr_t \<Rightarrow> bool" where
  "fresh_scratch k m len =
    (case mmap_nmem k of
       None \<Rightarrow> True
     | Some nmem \<Rightarrow> (\<forall>a. in_range nmem len a \<longrightarrow> m a = None))"

text \<open>
  The first \<^verbatim>\<open>CLEAN_EXIT_CHECK(oper)\<close>, taken when \<^verbatim>\<open>tmem == MAP_FAILED\<close>: the status is
  \<^verbatim>\<open>oper##_failed\<close>, or \<^verbatim>\<open>oper##_munmap_nmem_failed\<close> when releasing \<^verbatim>\<open>nmem\<close> fails too.
\<close>

definition clean_exit_nmem ::
    "kernel \<Rightarrow> address_space \<Rightarrow> uintptr_t \<Rightarrow> uintptr_t \<Rightarrow> map_status \<Rightarrow> map_status \<Rightarrow>
     map_status \<times> address_space" where
  "clean_exit_nmem k m nmem len oper_failed oper_munmap_nmem_failed =
    (let (ret, m1) = sys_munmap (munmap_nmem_ok k) m nmem len
     in (if ret < 0 then oper_munmap_nmem_failed else oper_failed, m1))"

text \<open>
  The second \<^verbatim>\<open>CLEAN_EXIT_CHECK(oper)\<close>, taken when \<^verbatim>\<open>ret < 0\<close>: it releases \<^verbatim>\<open>tmem\<close>, the
  mapping at the range's own address, and then \<^verbatim>\<open>nmem\<close>.
\<close>

definition clean_exit_tmem_nmem ::
    "kernel \<Rightarrow> address_space \<Rightarrow> uintptr_t \<Rightarrow> uintptr_t \<Rightarrow> uintptr_t \<Rightarrow>
     map_status \<Rightarrow> map_status \<Rightarrow> map_status \<Rightarrow> map_status \<Rightarrow>
     map_status \<times> address_space" where
  "clean_exit_tmem_nmem k m tmem nmem len
      oper_failed oper_munmap_tmem_failed oper_munmaps_failed oper_munmap_nmem_failed =
    (let status1 = oper_failed;
         (ret1, m1) = sys_munmap (munmap_tmem_ok k) m tmem len;
         status2 = (if ret1 < 0 then oper_munmap_tmem_failed else status1);
         (ret2, m2) = sys_munmap (munmap_nmem_ok k) m1 nmem len;
         status3 =
           (if ret2 < 0
            then (if status2 = oper_munmap_tmem_failed
                  then oper_munmaps_failed else oper_munmap_nmem_failed)
            else status2)
     in (status3, m2))"

definition MoveRegionToLargePages :: "kernel \<Rightarrow> mem_range \<Rightarrow> world \<Rightarrow> outcome" where
  "MoveRegionToLargePages k r w0 =
    (let w = w0\<lparr>remap_calls := remap_calls w0 @ [r]\<rparr>;
         start = r_from r;
         size = r_to r - r_from r
     in case sys_mmap (mmap_nmem k) (mem w) size {PROT_READ, PROT_WRITE} of
          (None, m1) \<Rightarrow> Return map_see_errno (w\<lparr>mem := m1\<rparr>)
        | (Some nmem, m1) \<Rightarrow>
            (case memcpy m1 nmem (r_from r) size of
               None \<Rightarrow> Segfault (w\<lparr>mem := m1\<rparr>)
             | Some m2 \<Rightarrow>
                 (case sys_mmap (if mmap_tmem_ok k then Some start else None) m2 size
                         {PROT_READ, PROT_WRITE, PROT_EXEC} of
                    (None, m3) \<Rightarrow>
                      (let (status, m4) =
                             clean_exit_nmem k m3 nmem size
                               map_see_errno_mmap_tmem_failed
                               map_see_errno_mmap_tmem_munmap_nmem_failed
                       in Return status (w\<lparr>mem := m4\<rparr>))
                  | (Some tmem, m3) \<Rightarrow>
                      (let (ret, m4) = sys_madvise (madvise_ok k) m3 tmem size
                       in if ret < 0
                          then (let (status, m5) =
                                      clean_exit_tmem_nmem k m4 tmem nmem size
                                        map_see_errno_madvise_tmem_failed
                                        map_see_errno_madvise_tmem_munmap_tmem_failed
                                        map_see_errno_madvise_tmem_munmaps_failed
                                        map_see_errno_madvise_tmem_munmap_nmem_failed
                                in Return status (w\<lparr>mem := m5\<rparr>))
                          else (case memcpy m4 start nmem size of
                                  None \<Rightarrow> Segfault (w\<lparr>mem := m4\<rparr>)
                                | Some m5 \<Rightarrow>
                                    (let (ret, m6) =
                                           sys_mprotect (mprotect_ok k) m5 start size
                                             {PROT_READ, PROT_EXEC}
                                     in if ret < 0
                                        then (let (status, m7) =
                                                    clean_exit_tmem_nmem k m6 tmem nmem size
                                                      map_see_errno_mprotect_failed
                                                      map_see_errno_mprotect_munmap_tmem_failed
                                                      map_see_errno_mprotect_munmaps_failed
                                                      map_see_errno_mprotect_munmap_nmem_failed
                                              in Return status (w\<lparr>mem := m7\<rparr>))
                                        else (let (ret, m7) =
                                                    sys_munmap (munmap_nmem_ok k) m6 nmem size
                                              in Return
                                                   (if ret < 0
                                                    then map_see_errno_munmap_nmem_failed
                                                    else map_ok)
                                                   (w\<lparr>mem := m7\<rparr>))))))))"

text \<open>
  The third value of \<open>Aligned\<close> is the page count the code prints,
  \<^verbatim>\<open>(to - from) / HPS\<close> on \<^verbatim>\<open>uintptr_t\<close>.
\<close>

definition AlignMoveRegionToLargePages :: "kernel \<Rightarrow> mem_range \<Rightarrow> world \<Rightarrow> outcome" where
  "AlignMoveRegionToLargePages k r0 w0 =
    (let w1 = w0\<lparr>stderr := stderr w0 @ [Found (r_from r0) (r_to r0)]\<rparr>;
         r = AlignRegionToPageBoundary r0;
         w2 = w1\<lparr>stderr := stderr w1 @
                 [Aligned (r_from r) (r_to r) ((r_to r - r_from r) div HPS)]\<rparr>;
         status = CheckMemRange r
     in if status \<noteq> map_ok then Return status w2 else MoveRegionToLargePages k r w2)"

definition MapStaticCodeRangeToLargePages ::
    "kernel \<Rightarrow> uintptr_t \<Rightarrow> uintptr_t \<Rightarrow> world \<Rightarrow> outcome" where
  "MapStaticCodeRangeToLargePages k from_addr to_addr w =
    AlignMoveRegionToLargePages k \<lparr>r_from = from_addr, r_to = to_addr\<rparr> w"

section \<open>Finding the text region\<close>

text \<open>
  What \<^verbatim>\<open>dl_iterate_phdr\<close> hands to its callback, as far as the code reads it: the
  object's name and its base address.
\<close>

record dl_phdr_info =
  dlpi_name :: string
  dlpi_addr :: uintptr_t

text \<open>
  A compiled regular expression is the set of names it matches:
  \<^verbatim>\<open>regexec(&regex, name, 0, NULL, 0) == 0\<close> is \<open>regex name\<close>. The fields \<^verbatim>\<open>start\<close> and
  \<^verbatim>\<open>end\<close> of \<^verbatim>\<open>FindParams\<close> carry the prefix \<open>fp_\<close> (\<^verbatim>\<open>end\<close> is a reserved word).
\<close>

type_synonym regex_t = "string \<Rightarrow> bool"

record FindParams =
  fp_start :: uintptr_t
  fp_end :: uintptr_t
  fp_regex :: regex_t
  have_regex :: bool

text \<open>
  A section header of the ELF image, with its name already looked up in the section-name
  string table (\<^verbatim>\<open>strtab + shdr[idx].sh_name\<close>).
\<close>

record Elf_Shdr =
  sh_name :: string
  sh_addr :: uintptr_t
  sh_size :: uintptr_t

text \<open>
  A file as \<^verbatim>\<open>FindMapping\<close> meets it: whether \<^verbatim>\<open>stat\<close>, \<^verbatim>\<open>open\<close>, \<^verbatim>\<open>mmap\<close>, \<^verbatim>\<open>munmap\<close> and
  \<^verbatim>\<open>close\<close> succeed on it, and the section headers of its image, in the order of the
  section header table.
\<close>

record exe_file =
  exe_stat_ok :: bool
  exe_open_ok :: bool
  exe_mmap_ok :: bool
  exe_shdrs :: "Elf_Shdr list"
  exe_munmap_ok :: bool
  exe_close_ok :: bool

text \<open>
  The loop over the section headers: every header whose name starts with \<^verbatim>\<open>.text\<close>
  (\<^verbatim>\<open>strncmp(name, ".text", 5) == 0\<close>) replaces \<^verbatim>\<open>shdr_text\<close>, so the last one stays.
\<close>

fun find_text_section :: "Elf_Shdr list \<Rightarrow> Elf_Shdr option \<Rightarrow> Elf_Shdr option" where
  "find_text_section [] shdr_text = shdr_text"
| "find_text_section (shdr # shdrs) shdr_text =
     find_text_section shdrs
       (if take 5 (sh_name shdr) = ''.text'' then Some shdr else shdr_text)"

text \<open>
  \<^verbatim>\<open>FindMapping\<close>, the callback: its \<^verbatim>\<open>int\<close> result and the \<^verbatim>\<open>FindParams\<close> it leaves
  behind. \<^verbatim>\<open>hdr->dlpi_name[0] == 0\<close> is \<open>dlpi_name hdr = []\<close>.
\<close>

definition FindMapping ::
    "(string \<Rightarrow> exe_file) \<Rightarrow> dl_phdr_info \<Rightarrow> FindParams \<Rightarrow> int \<times> FindParams" where
  "FindMapping files hdr find_params =
    (if (have_regex find_params \<and> fp_regex find_params (dlpi_name hdr)) \<or> dlpi_name hdr = []
     then
       (let filename = (if dlpi_name hdr = [] then ''/proc/self/exe'' else dlpi_name hdr);
            exe = files filename
        in if \<not> exe_stat_ok exe then (- map_failed_to_stat_exe, find_params)
           else if \<not> exe_open_ok exe then (- map_failed_to_open_exe, find_params)
           else if \<not> exe_mmap_ok exe then (- map_failed_to_map_exe_see_errno, find_params)
           else
             (case find_text_section (exe_shdrs exe) None of
                None \<Rightarrow> (- map_failed_to_find_text_section, find_params)
              | Some shdr_text \<Rightarrow>
                  (let start = sh_addr shdr_text + dlpi_addr hdr;
                       find_params' =
                         find_params\<lparr>fp_start := start, fp_end := start + sh_size shdr_text\<rparr>
                   in if \<not> exe_munmap_ok exe
                      then (map_failed_to_unmap_exe_see_errno, find_params')
                      else if \<not> exe_close_ok exe
                      then (- map_failed_to_close_exe_see_errno, find_params')
                      else (1, find_params'))))
     else (- map_region_not_found, find_params))"

text \<open>
  \<^verbatim>\<open>dl_iterate_phdr\<close> (the C library's) calls the callback once for each loaded object,
  in the loader's order, until a call returns a non-zero value; it returns the value of
  the last call, and 0 when there is no object.
\<close>

fun dl_iterate_phdr ::
    "(dl_phdr_info \<Rightarrow> 'd \<Rightarrow> int \<times> 'd) \<Rightarrow> dl_phdr_info list \<Rightarrow> 'd \<Rightarrow> int \<times> 'd" where
  "dl_iterate_phdr callback [] data = (0, data)"
| "dl_iterate_phdr callback (hdr # hdrs) data =
     (let (ret, data') = callback hdr data
      in if ret \<noteq> 0 then (ret, data') else dl_iterate_phdr callback hdrs data')"

text \<open>
  The process as region discovery sees it: the loaded objects in the loader's order,
  the files by name, and \<^verbatim>\<open>regcomp\<close> (\<open>None\<close> when the pattern does not compile).
\<close>

record process =
  loaded :: "dl_phdr_info list"
  files :: "string \<Rightarrow> exe_file"
  regcomp :: "string \<Rightarrow> regex_t option"

text \<open>
  \<^verbatim>\<open>FindTextRegion(lib_regex, region)\<close>: the status and the final \<^verbatim>\<open>*region\<close>;
  \<open>lib_regex = None\<close> is the \<^verbatim>\<open>NULL\<close> pointer.
\<close>

definition FindTextRegion ::
    "process \<Rightarrow> string option \<Rightarrow> mem_range \<Rightarrow> map_status \<times> mem_range" where
  "FindTextRegion p lib_regex region =
    (let find_params0 = \<lparr>fp_start = 0, fp_end = 0, fp_regex = (\<lambda>name. False), have_regex = False\<rparr>;
         compiled =
           (case lib_regex of
              None \<Rightarrow> Some find_params0
            | Some pattern \<Rightarrow>
                (case regcomp p pattern of
                   None \<Rightarrow> None
                 | Some regex \<Rightarrow> Some (find_params0\<lparr>fp_regex := regex, have_regex := True\<rparr>)))
     in case compiled of
          None \<Rightarrow> (map_invalid_regex, region)
        | Some find_params \<Rightarrow>
            (let (status, find_params') =
                   dl_iterate_phdr (FindMapping (files p)) (loaded p) find_params
             in if status < 0 then (- status, region)
                else (map_ok, region\<lparr>r_from := fp_start find_params', r_to := fp_end find_params'\<rparr>)))"

section \<open>The entry points\<close>

definition MapStaticCodeToLargePages :: "process \<Rightarrow> kernel \<Rightarrow> world \<Rightarrow> outcome" where
  "MapStaticCodeToLargePages p k w =
    (let (status, r) = FindTextRegion p None \<lparr>r_from = 0, r_to = 0\<rparr>
     in if status \<noteq> map_ok then Return status w else AlignMoveRegionToLargePages k r w)"

definition MapDSOToLargePages :: "process \<Rightarrow> kernel \<Rightarrow> string option \<Rightarrow> world \<Rightarrow> outcome" where
  "MapDSOToLargePages p k lib_regex w =
    (case lib_regex of
       None \<Rightarrow> Return map_null_regex w
     | Some pattern \<Rightarrow>
         (let (status, r) = FindTextRegion p (Some pattern) \<lparr>r_from = 0, r_to = 0\<rparr>
          in if status \<noteq> map_ok then Return status w else AlignMoveRegionToLargePages k r w))"

section \<open>An example process\<close>

text \<open>
  A process for the concrete evaluations below. Its executable is mapped read+execute
  at \<open>0x400000\<close>, 6 MiB long, and each byte holds the low byte of its own address. The
  text section runs from \<open>0x401000\<close> to \<open>0x9ff000\<close>; aligned to huge pages that is the
  one page from \<open>0x600000\<close> to \<open>0x800000\<close>. The kernel lets every call succeed and
  places the scratch region at \<open>0x7f0000000000\<close>.
\<close>

definition example_mem :: address_space where
  "example_mem =
    (\<lambda>a. if in_range 0x400000 0x600000 a
         then Some \<lparr>content = ucast a, prot = {PROT_READ, PROT_EXEC}, hugepage = False\<rparr>
         else None)"

definition example_world :: world where
  "example_world = \<lparr>mem = example_mem, stderr = [], remap_calls = []\<rparr>"

definition example_text :: mem_range where
  "example_text = \<lparr>r_from = 0x401000, r_to = 0x9ff000\<rparr>"

definition example_kernel :: kernel where
  "example_kernel =
    \<lparr>mmap_nmem = Some 0x7f0000000000, mmap_tmem_ok = True, madvise_ok = True,
     mprotect_ok = True, munmap_tmem_ok = True, munmap_nmem_ok = True\<rparr>"

definition example_range :: mem_range where
  "example_range = \<lparr>r_from = 0x600000, r_to = 0x800000\<rparr>"

text \<open>
  \<^verbatim>\<open>regcomp\<close> on a pattern without special characters: the compiled expression matches
  the names that contain the pattern.
\<close>

fun literal_regex :: "string \<Rightarrow> regex_t" where
  "literal_regex pattern [] = (pattern = [])"
| "literal_regex pattern (c # cs) =
     (take (length pattern) (c # cs) = pattern \<or> literal_regex pattern cs)"

definition example_exe :: exe_file where
  "example_exe =
    \<lparr>exe_stat_ok = True, exe_open_ok = True, exe_mmap_ok = True,
     exe_shdrs =
       [\<lparr>sh_name = '''', sh_addr = 0, sh_size = 0\<rparr>,
        \<lparr>sh_name = ''.init'', sh_addr = 0x400800, sh_size = 0x20\<rparr>,
        \<lparr>sh_name = ''.text'', sh_addr = 0x401000, sh_size = 0x5fe000\<rparr>,
        \<lparr>sh_name = ''.data'', sh_addr = 0xa00000, sh_size = 0x1000\<rparr>,
        \<lparr>sh_name = ''.shstrtab'', sh_addr = 0, sh_size = 0x40\<rparr>],
     exe_munmap_ok = True, exe_close_ok = True\<rparr>"

definition example_process :: process where
  "example_process =
    \<lparr>loaded =
       [\<lparr>dlpi_name = '''', dlpi_addr = 0\<rparr>,
        \<lparr>dlpi_name = ''/usr/lib/libnode.so'', dlpi_addr = 0x7f1000000000\<rparr>],
     files = (\<lambda>name. example_exe),
     regcomp = (\<lambda>pattern. Some (literal_regex pattern))\<rparr>"

section \<open>The status names\<close>

text \<open>Each constant is the index of its own name in the table of \<^verbatim>\<open>MapStatusStr\<close>.\<close>

lemma MapStatusStr_names:
  "map (\<lambda>status. MapStatusStr status False)
     [map_ok, map_failed_to_open_thp_file, map_failed_to_stat_exe, map_failed_to_open_exe,
      map_failed_to_map_exe_see_errno, map_failed_to_find_text_section,
      map_failed_to_unmap_exe_see_errno, map_failed_to_close_exe_see_errno,
      map_invalid_regex, map_invalid_region_address, map_malformed_thp_file,
      map_null_regex, map_region_not_found, map_region_too_small, map_see_errno,
      map_see_errno_madvise_tmem_failed, map_see_errno_madvise_tmem_munmap_nmem_failed,
      map_see_errno_madvise_tmem_munmaps_failed,
      map_see_errno_madvise_tmem_munmap_tmem_failed, map_see_errno_mmap_tmem_failed,
      map_see_errno_mmap_tmem_munmap_nmem_failed, map_see_errno_mprotect_failed,
      map_see_errno_mprotect_munmap_nmem_failed, map_see_errno_mprotect_munmaps_failed,
      map_see_errno_mprotect_munmap_tmem_failed, map_see_errno_munmap_nmem_failed,
      map_unsupported_platform] =
   map Some
     [''map_ok'', ''map_failed_to_open_thp_file'', ''map_failed_to_stat_exe'',
      ''map_failed_to_open_exe'', ''map_failed_to_map_exe_see_errno'',
      ''map_failed_to_find_text_section'', ''map_failed_to_unmap_exe_see_errno'',
      ''map_failed_to_close_exe_see_errno'', ''map_invalid_regex'',
      ''map_invalid_region_address'', ''map_malformed_thp_file'', ''map_null_regex'',
      ''map_region_not_found'', ''map_region_too_small'', ''map_see_errno'',
      ''map_see_errno_madvise_tmem_failed'', ''map_see_errno_madvise_tmem_munmap_nmem_failed'',
      ''map_see_errno_madvise_tmem_munmaps_failed'',
      ''map_see_errno_madvise_tmem_munmap_tmem_failed'', ''map_see_errno_mmap_tmem_failed'',
      ''map_see_errno_mmap_tmem_munmap_nmem_failed'', ''map_see_errno_mprotect_failed'',
      ''map_see_errno_mprotect_munmap_nmem_failed'', ''map_see_errno_mprotect_munmaps_failed'',
      ''map_see_errno_mprotect_munmap_tmem_failed'', ''map_see_errno_munmap_nmem_failed'',
      ''map_unsupported_platform'']"
  by (simp add: MapStatusStr_def map_status_text_def
      map_ok_def map_failed_to_open_thp_file_def map_failed_to_stat_exe_def
      map_failed_to_open_exe_def map_failed_to_map_exe_see_errno_def
      map_failed_to_find_text_section_def map_failed_to_unmap_exe_see_errno_def
      map_failed_to_close_exe_see_errno_def map_invalid_regex_def
      map_invalid_region_address_def map_malformed_thp_file_def map_null_regex_def
      map_region_not_found_def map_region_too_small_def map_see_errno_def
      map_see_errno_madvise_tmem_failed_def map_see_errno_madvise_tmem_munmap_nmem_failed_def
      map_see_errno_madvise_tmem_munmaps_failed_def
      map_see_errno_madvise_tmem_munmap_tmem_failed_def map_see_errno_mmap_tmem_failed_def
      map_see_errno_mmap_tmem_munmap_nmem_failed_def map_see_errno_mprotect_failed_def
      map_see_errno_mprotect_munmap_nmem_failed_def map_see_errno_mprotect_munmaps_failed_def
      map_see_errno_mprotect_munmap_tmem_failed_def map_see_errno_munmap_nmem_failed_def
      map_unsupported_platform_def)

section \<open>The probe reads three tokens\<close>

lemma scan_s_blank:
  assumes "\<forall>x\<in>set ws. isspace x"
  shows "scan_s ws = None"
  using assms by (simp add: scan_s_def dropWhile_eq_Nil_conv)

lemma scan_s_token:
  assumes ws: "\<forall>x\<in>set ws. isspace x"
    and tok: "tok \<noteq> []" "\<forall>x\<in>set tok. \<not> isspace x"
    and rest: "rest = [] \<or> isspace (hd rest)"
  shows "scan_s (ws @ tok @ rest) = Some (tok, rest)"
proof -
  have hd_tok: "\<not> isspace (hd tok)"
    using tok by (cases tok) simp_all
  have skip: "dropWhile isspace (ws @ tok @ rest) = tok @ rest"
    using ws tok hd_tok by (cases tok) (simp_all add: dropWhile_append2)
  have take: "takeWhile (\<lambda>c. \<not> isspace c) (tok @ rest) = tok"
    using tok(2) rest by (cases rest) (simp_all add: takeWhile_append2)
  have drop: "dropWhile (\<lambda>c. \<not> isspace c) (tok @ rest) = rest"
    using tok(2) rest by (cases rest) (simp_all add: dropWhile_append2)
  show ?thesis
    using tok(1) by (simp add: scan_s_def skip take drop)
qed

lemma isspace_hd_append:
  assumes "\<forall>x\<in>set ws. isspace x" "ws \<noteq> []"
  shows "isspace (hd (ws @ xs))"
  using assms by (cases ws) simp_all

lemma fscanf_sss_none:
  assumes "\<forall>x\<in>set w0. isspace x"
  shows "fscanf_sss w0 = Inr (EOF, [], [], [])"
  using assms by (simp add: fscanf_sss_def scan_s_blank)

lemma fscanf_sss_one:
  assumes "\<forall>x\<in>set w0. isspace x" "\<forall>x\<in>set w3. isspace x"
    and "a \<noteq> []" "\<forall>x\<in>set a. \<not> isspace x" "length a < 16"
  shows "fscanf_sss (w0 @ a @ w3) = Inr (1, a, [], [])"
proof -
  have "w3 = [] \<or> isspace (hd w3)"
    using assms(2) by (cases w3) simp_all
  then have "scan_s (w0 @ a @ w3) = Some (a, w3)"
    using assms by (intro scan_s_token) simp_all
  moreover have "scan_s w3 = None"
    using assms(2) by (rule scan_s_blank)
  ultimately show ?thesis
    using assms(5) by (simp add: fscanf_sss_def)
qed

lemma fscanf_sss_two:
  assumes "\<forall>x\<in>set w0. isspace x" "\<forall>x\<in>set w1. isspace x" "w1 \<noteq> []"
    and "\<forall>x\<in>set w3. isspace x"
    and "a \<noteq> []" "\<forall>x\<in>set a. \<not> isspace x" "length a < 16"
    and "b \<noteq> []" "\<forall>x\<in>set b. \<not> isspace x" "length b < 16"
  shows "fscanf_sss (w0 @ a @ w1 @ b @ w3) = Inr (2, a, b, [])"
proof -
  have "isspace (hd (w1 @ b @ w3))"
    using assms(2,3) by (rule isspace_hd_append)
  then have "scan_s (w0 @ a @ w1 @ b @ w3) = Some (a, w1 @ b @ w3)"
    using assms by (intro scan_s_token) simp_all
  moreover have "w3 = [] \<or> isspace (hd w3)"
    using assms(4) by (cases w3) simp_all
  then have "scan_s (w1 @ b @ w3) = Some (b, w3)"
    using assms by (intro scan_s_token) simp_all
  moreover have "scan_s w3 = None"
    using assms(4) by (rule scan_s_blank)
  ultimately show ?thesis
    using assms(7,10) by (simp add: fscanf_sss_def)
qed

lemma fscanf_sss_three:
  assumes "\<forall>x\<in>set w0. isspace x" "\<forall>x\<in>set w1. isspace x" "w1 \<noteq> []"
    and "\<forall>x\<in>set w2. isspace x" "w2 \<noteq> []"
    and "rest = [] \<or> isspace (hd rest)"
    and "a \<noteq> []" "\<forall>x\<in>set a. \<not> isspace x" "length a < 16"
    and "b \<noteq> []" "\<forall>x\<in>set b. \<not> isspace x" "length b < 16"
    and "c \<noteq> []" "\<forall>x\<in>set c. \<not> isspace x" "length c < 16"
  shows "fscanf_sss (w0 @ a @ w1 @ b @ w2 @ c @ rest) = Inr (3, a, b, c)"
proof -
  have "isspace (hd (w1 @ b @ w2 @ c @ rest))"
    using assms(2,3) by (rule isspace_hd_append)
  then have "scan_s (w0 @ a @ w1 @ b @ w2 @ c @ rest) = Some (a, w1 @ b @ w2 @ c @ rest)"
    using assms by (intro scan_s_token) simp_all
  moreover have "isspace (hd (w2 @ c @ rest))"
    using assms(4,5) by (rule isspace_hd_append)
  then have "scan_s (w1 @ b @ w2 @ c @ rest) = Some (b, w2 @ c @ rest)"
    using assms by (intro scan_s_token) simp_all
  moreover have "scan_s (w2 @ c @ rest) = Some (c, rest)"
    using assms by (intro scan_s_token) simp_all
  ultimately show ?thesis
    using assms(9,12,15) by (simp add: fscanf_sss_def)
qed

lemmas thp_defs = IsLargePagesEnabled_def IsTransparentHugePagesEnabled_def

text \<open>
  Claim C6. For a capability file that holds the policy line, three tokens with one mode
  in brackets, separated by white space, \<^verbatim>\<open>IsLargePagesEnabled\<close> returns \<^verbatim>\<open>map_ok\<close>, with
  \<^verbatim>\<open>*result\<close> true when the bracketed mode is \<^verbatim>\<open>always\<close> or \<^verbatim>\<open>madvise\<close> and false when it
  is \<^verbatim>\<open>never\<close>.
\<close>

theorem thp_policy_line:
  assumes blank: "\<forall>x\<in>set (w0 @ w1 @ w2 @ w3). isspace x"
    and sep: "w1 \<noteq> []" "w2 \<noteq> []"
  shows "IsLargePagesEnabled True
           (Some (w0 @ ''[always]'' @ w1 @ ''madvise'' @ w2 @ ''never'' @ w3)) result0 =
           Inr (map_ok, True)
       \<and> IsLargePagesEnabled True
           (Some (w0 @ ''always'' @ w1 @ ''[madvise]'' @ w2 @ ''never'' @ w3)) result0 =
           Inr (map_ok, True)
       \<and> IsLargePagesEnabled True
           (Some (w0 @ ''always'' @ w1 @ ''madvise'' @ w2 @ ''[never]'' @ w3)) result0 =
           Inr (map_ok, False)"
proof -
  have w3: "w3 = [] \<or> isspace (hd w3)"
    using blank by (cases w3) simp_all
  have 1: "fscanf_sss (w0 @ ''[always]'' @ w1 @ ''madvise'' @ w2 @ ''never'' @ w3) =
      Inr (3, ''[always]'', ''madvise'', ''never'')"
    using blank sep w3 by (intro fscanf_sss_three) (simp_all add: isspace_def)
  have 2: "fscanf_sss (w0 @ ''always'' @ w1 @ ''[madvise]'' @ w2 @ ''never'' @ w3) =
      Inr (3, ''always'', ''[madvise]'', ''never'')"
    using blank sep w3 by (intro fscanf_sss_three) (simp_all add: isspace_def)
  have 3: "fscanf_sss (w0 @ ''always'' @ w1 @ ''madvise'' @ w2 @ ''[never]'' @ w3) =
      Inr (3, ''always'', ''madvise'', ''[never]'')"
    using blank sep w3 by (intro fscanf_sss_three) (simp_all add: isspace_def)
  show ?thesis
    unfolding thp_defs if_True option.case 1 2 3 by (simp add: c_str_def)
qed

text \<open>
  The lines \<^verbatim>\<open>[always] madvise never\<close>, \<^verbatim>\<open>always [madvise] never\<close> and
  \<^verbatim>\<open>always madvise [never]\<close> themselves.
\<close>

theorem thp_policy_line_witness:
  "IsLargePagesEnabled True (Some ''[always] madvise never'') False = Inr (map_ok, True)
 \<and> IsLargePagesEnabled True (Some ''always [madvise] never'') False = Inr (map_ok, True)
 \<and> IsLargePagesEnabled True (Some ''always madvise [never]'') True = Inr (map_ok, False)"
proof -
  have blank: "\<forall>x\<in>set ([] @ '' '' @ '' '' @ []). isspace x"
    by (simp add: isspace_def)
  have sep: "'' '' \<noteq> []"
    by simp
  show ?thesis
    using thp_policy_line [OF blank sep sep, of False]
      thp_policy_line [OF blank sep sep, of True]
    by simp
qed

text \<open>
  Claim C10, as amended. When the file holds exactly three tokens, each shorter than 16
  characters (the size of its buffer), and the first is not \<^verbatim>\<open>[always]\<close>, the second not
  \<^verbatim>\<open>[madvise]\<close> and the third not \<^verbatim>\<open>[never]\<close>, each compared as \<^verbatim>\<open>strcmp\<close> compares it:
  as a C string, up to its first NUL byte, then \<^verbatim>\<open>IsLargePagesEnabled\<close> returns \<^verbatim>\<open>map_ok\<close>
  with \<^verbatim>\<open>*result\<close> false, not a malformed-file error.
\<close>

theorem thp_no_active_mode:
  assumes blank: "\<forall>x\<in>set (w0 @ w1 @ w2 @ w3). isspace x"
    and sep: "w1 \<noteq> []" "w2 \<noteq> []"
    and toks: "\<forall>t\<in>set [a, b, c]. t \<noteq> [] \<and> length t < 16 \<and> (\<forall>x\<in>set t. \<not> isspace x)"
    and other: "c_str a \<noteq> ''[always]''" "c_str b \<noteq> ''[madvise]''" "c_str c \<noteq> ''[never]''"
  shows "IsLargePagesEnabled True (Some (w0 @ a @ w1 @ b @ w2 @ c @ w3)) result0 =
           Inr (map_ok, False)"
proof -
  have w3: "w3 = [] \<or> isspace (hd w3)"
    using blank by (cases w3) simp_all
  have "fscanf_sss (w0 @ a @ w1 @ b @ w2 @ c @ w3) = Inr (3, a, b, c)"
    using blank sep w3 toks by (intro fscanf_sss_three) simp_all
  then show ?thesis
    using other by (simp add: thp_defs)
qed

text \<open>A bracketed mode in an unexpected position: \<^verbatim>\<open>madvise [always] never\<close>.\<close>

theorem thp_no_active_mode_witness:
  "IsLargePagesEnabled True (Some ''madvise [always] never'') True = Inr (map_ok, False)"
proof -
  have blank: "\<forall>x\<in>set ([] @ '' '' @ '' '' @ []). isspace x"
    by (simp add: isspace_def)
  have sep: "'' '' \<noteq> []"
    by simp
  have toks: "\<forall>t\<in>set [''madvise'', ''[always]'', ''never''].
      t \<noteq> [] \<and> length t < 16 \<and> (\<forall>x\<in>set t. \<not> isspace x)"
    by (simp add: isspace_def)
  have other: "c_str ''madvise'' \<noteq> ''[always]''" "c_str ''[always]'' \<noteq> ''[madvise]''"
      "c_str ''never'' \<noteq> ''[never]''"
    by (simp_all add: c_str_def)
  show ?thesis
    using thp_no_active_mode [OF blank sep sep toks other, of True] by simp
qed

text \<open>
  The claim as stated holds for any three tokens. A first token that continues after a
  NUL byte is not \<^verbatim>\<open>[always]\<close>, yet \<^verbatim>\<open>strcmp\<close> takes it for \<^verbatim>\<open>[always]\<close> and \<^verbatim>\<open>*result\<close> is
  true; and a first token of 16 characters overruns its buffer.
\<close>

theorem thp_no_active_mode_counterexample:
  "''[always]'' @ [CHR 0x00] @ ''junk'' \<noteq> ''[always]''
   \<and> ''madvise'' \<noteq> ''[madvise]'' \<and> ''never'' \<noteq> ''[never]''
   \<and> IsLargePagesEnabled True (Some (''[always]'' @ [CHR 0x00] @ ''junk madvise never'')) False =
       Inr (map_ok, True)
   \<and> IsLargePagesEnabled True (Some ''0123456789abcdef madvise never'') False =
       Inl buffer_overrun"
  by (simp add: thp_defs fscanf_sss_def scan_s_def isspace_def c_str_def)

text \<open>
  Claim C5, as amended. \<^verbatim>\<open>IsLargePagesEnabled\<close> returns \<^verbatim>\<open>map_malformed_thp_file\<close> when
  the file holds fewer than three tokens: none, one or two. With three tokens or more it
  returns \<^verbatim>\<open>map_ok\<close>: what follows the third token is never read. (Each token read is
  shorter than 16 characters, the size of its buffer.)
\<close>

theorem thp_token_count:
  assumes blank: "\<forall>x\<in>set (w0 @ w1 @ w2 @ w3). isspace x"
    and sep: "w1 \<noteq> []" "w2 \<noteq> []"
    and toks: "\<forall>t\<in>set [a, b, c]. t \<noteq> [] \<and> length t < 16 \<and> (\<forall>x\<in>set t. \<not> isspace x)"
    and more: "rest = [] \<or> isspace (hd rest)"
  shows "IsLargePagesEnabled True (Some w0) result0 = Inr (map_malformed_thp_file, False)
       \<and> IsLargePagesEnabled True (Some (w0 @ a @ w3)) result0 =
           Inr (map_malformed_thp_file, False)
       \<and> IsLargePagesEnabled True (Some (w0 @ a @ w1 @ b @ w3)) result0 =
           Inr (map_malformed_thp_file, False)
       \<and> (\<exists>enabled. IsLargePagesEnabled True (Some (w0 @ a @ w1 @ b @ w2 @ c @ rest)) result0 =
           Inr (map_ok, enabled))"
proof -
  have 0: "fscanf_sss w0 = Inr (EOF, [], [], [])"
    using blank by (intro fscanf_sss_none) simp
  have 1: "fscanf_sss (w0 @ a @ w3) = Inr (1, a, [], [])"
    using blank toks by (intro fscanf_sss_one) simp_all
  have 2: "fscanf_sss (w0 @ a @ w1 @ b @ w3) = Inr (2, a, b, [])"
    using blank sep toks by (intro fscanf_sss_two) simp_all
  have 3: "fscanf_sss (w0 @ a @ w1 @ b @ w2 @ c @ rest) = Inr (3, a, b, c)"
    using blank sep toks more by (intro fscanf_sss_three) simp_all
  show ?thesis
    unfolding thp_defs if_True option.case 0 1 2 3 by (auto simp: EOF_def)
qed

theorem thp_token_count_witness:
  "IsLargePagesEnabled True (Some '''') True = Inr (map_malformed_thp_file, False)
 \<and> IsLargePagesEnabled True (Some ''always'') True = Inr (map_malformed_thp_file, False)
 \<and> IsLargePagesEnabled True (Some ''always madvise'') True = Inr (map_malformed_thp_file, False)
 \<and> (\<exists>enabled. IsLargePagesEnabled True (Some ''always madvise [never] extra'') True =
       Inr (map_ok, enabled))"
proof -
  have blank: "\<forall>x\<in>set ([] @ '' '' @ '' '' @ []). isspace x"
    by (simp add: isspace_def)
  have sep: "'' '' \<noteq> []"
    by simp
  have toks: "\<forall>t\<in>set [''always'', ''madvise'', ''[never]''].
      t \<noteq> [] \<and> length t < 16 \<and> (\<forall>x\<in>set t. \<not> isspace x)"
    by (simp add: isspace_def)
  have more: "'' extra'' = [] \<or> isspace (hd '' extra'')"
    by (simp add: isspace_def)
  show ?thesis
    using thp_token_count [OF blank sep sep toks more, of True] by simp
qed

text \<open>
  The claim as stated also calls a file with more than three tokens malformed. Four
  tokens: the status is \<^verbatim>\<open>map_ok\<close>.
\<close>

theorem thp_four_tokens_counterexample:
  "IsLargePagesEnabled True (Some ''[always] madvise never extra'') False = Inr (map_ok, True)
 \<and> map_ok \<noteq> map_malformed_thp_file"
  by (simp add: thp_defs fscanf_sss_def scan_s_def isspace_def c_str_def
      map_ok_def map_malformed_thp_file_def)

section \<open>Aligned and validated ranges\<close>

lemma HPS_minus_1: "HPS - 1 = mask 21"
  by (simp add: HPS_def mask_eq_exp_minus_1)

lemma unat_HPS: "unat HPS = 2097152"
  by (simp add: HPS_def)

lemma sint_HPS: "sint HPS = 2097152"
  by (simp add: HPS_def)

lemma align_down_push_drop: "largepage_align_down a = push_bit 21 (drop_bit 21 a)"
  unfolding largepage_align_down_def HPS_minus_1
  by (rule bit_eqI) (auto simp: bit_simps)

lemma unat_align_down: "unat (largepage_align_down a) = unat a div 2097152 * 2097152"
proof -
  have "unat a div 2097152 * 2097152 \<le> unat a"
    by simp
  also have "unat a < 2 ^ 64"
    using unsigned_less [of a] by simp
  finally have "unat a div 2097152 * 2097152 < 2 ^ 64" .
  moreover have "unat (largepage_align_down a) =
      take_bit 64 (push_bit 21 (drop_bit 21 (unat a)))"
    by (simp only: align_down_push_drop unsigned_push_bit_eq unat_drop_bit_eq) simp
  ultimately show ?thesis
    by (simp add: push_bit_eq_mult drop_bit_eq_div take_bit_eq_mod)
qed

lemma align_down_aligned: "unat (largepage_align_down a) mod unat HPS = 0"
  by (simp add: unat_align_down unat_HPS)

lemma align_up_aligned: "unat (largepage_align_up a) mod unat HPS = 0"
  by (simp add: largepage_align_up_def align_down_aligned)

lemma sint_le_uint: "sint w \<le> uint w" for w :: uintptr_t
proof -
  have "- (2 ^ 63) \<le> uint w"
    by (rule order_trans [of _ 0]) simp_all
  then show ?thesis
    by (simp add: sint_uint signed_take_bit_int_less_eq_self_iff)
qed

lemma large_enough:
  fixes x y :: uintptr_t
  assumes "x \<le> y" and "\<not> sint (y - x) < sint HPS"
  shows "unat x + 2097152 \<le> unat y"
proof -
  have "2097152 \<le> sint (y - x)"
    using assms(2) by (simp add: sint_HPS)
  also have "\<dots> \<le> uint (y - x)"
    by (rule sint_le_uint)
  finally have "(2097152::int) \<le> int (unat (y - x))"
    by (simp only: uint_nat)
  then have "2097152 \<le> unat (y - x)"
    by linarith
  moreover have "unat (y - x) = unat y - unat x"
    using assms(1) by (rule unat_sub)
  ultimately show ?thesis
    by linarith
qed

lemma CheckMemRange_ok:
  assumes "CheckMemRange r = map_ok"
  shows "r_from r \<noteq> 0 \<and> r_to r \<noteq> 0 \<and> r_from r < r_to r \<and> unat (r_from r) + unat HPS \<le> unat (r_to r)"
proof -
  have a: "r_from r \<noteq> 0" "r_to r \<noteq> 0" "r_from r \<le> r_to r" "\<not> sint (r_to r - r_from r) < sint HPS"
    using assms
    by (auto simp: CheckMemRange_def map_ok_def map_invalid_region_address_def
        map_region_too_small_def split: if_splits)
  from large_enough [OF a(3,4)] have b: "unat (r_from r) + 2097152 \<le> unat (r_to r)" .
  then have "unat (r_from r) < unat (r_to r)"
    by linarith
  then have "r_from r < r_to r"
    by (simp add: word_less_nat_alt)
  with a b show ?thesis
    by (simp add: unat_HPS)
qed

lemma div_round_up_unaligned:
  fixes x :: nat
  assumes "x mod 2097152 \<noteq> 0"
  shows "(x + 2097151) div 2097152 = x div 2097152 + 1"
proof -
  define q where "q = x div 2097152"
  define o' where "o' = x mod 2097152"
  have x: "x = o' + q * 2097152"
    by (simp add: q_def o'_def)
  have o: "1 \<le> o'" "o' < 2097152"
    using assms by (simp_all add: o'_def)
  then have "x + 2097151 = (o' - 1) + (q + 1) * 2097152"
    by (simp add: x)
  also have "\<dots> div 2097152 = q + 1"
    using o by simp
  finally show ?thesis
    by (simp add: q_def)
qed

lemma div_round_up_aligned:
  fixes x :: nat
  assumes "x mod 2097152 = 0"
  shows "(x + 2097151) div 2097152 = x div 2097152"
proof -
  define q where "q = x div 2097152"
  have x: "x = 2097151 * 0 + q * 2097152"
    using assms by (simp add: q_def mod_eq_0_iff_dvd)
  have "x + 2097151 = 2097151 + q * 2097152"
    using x by simp
  also have "\<dots> div 2097152 = q"
    by simp
  finally show ?thesis
    by (simp add: q_def)
qed

lemma aligned_top:
  fixes x :: nat
  assumes "x mod 2097152 = 0" "x < 2 ^ 64"
  shows "x + 2097151 < 2 ^ 64"
proof -
  define q where "q = x div 2097152"
  have x: "x = q * 2097152"
    using assms(1) by (simp add: q_def mod_eq_0_iff_dvd)
  have "q * 2097152 < 8796093022208 * 2097152"
    using assms(2) by (simp add: x)
  then have "q < 8796093022208"
    by simp
  then have "q + 1 \<le> 8796093022208" by simp
  then have "(q + 1) * 2097152 \<le> 8796093022208 * 2097152"
    by (rule mult_le_mono1)
  then show ?thesis
    by (simp add: x)
qed

lemma align_up_argument: "a + HPS - 1 = a + mask 21"
  by (simp add: HPS_def mask_eq_exp_minus_1)

lemma unat_mask21: "unat (mask 21 :: uintptr_t) = 2097151"
  by (simp add: mask_eq_exp_minus_1)

lemma unat_align_up:
  "unat (largepage_align_up a) = ((unat a + 2097151) mod 2 ^ 64) div 2097152 * 2097152"
  by (simp add: largepage_align_up_def align_up_argument unat_align_down unat_word_ariths unat_mask21)

lemma align_aligned:
  assumes "unat a mod 2097152 = 0"
  shows "largepage_align_down a = a" and "largepage_align_up a = a"
proof -
  have lt: "unat a < 2 ^ 64"
    using unsigned_less [of a] by simp
  have "unat (largepage_align_down a) = unat a"
    using assms by (simp add: unat_align_down mod_eq_0_iff_dvd)
  then show "largepage_align_down a = a"
    by (simp only: word_unat_eq_iff)
  have "unat a + 2097151 < 2 ^ 64"
    using assms lt by (rule aligned_top)
  then have "unat (largepage_align_up a) = (unat a + 2097151) div 2097152 * 2097152"
    by (simp add: unat_align_up)
  also have "\<dots> = unat a"
    using assms by (simp add: div_round_up_aligned mod_eq_0_iff_dvd)
  finally show "largepage_align_up a = a"
    by (simp only: word_unat_eq_iff)
qed

lemma align_unaligned:
  assumes "unat a mod 2097152 \<noteq> 0"
  shows "largepage_align_up a = 0 \<or> largepage_align_down a < largepage_align_up a"
proof (cases "unat a + 2097151 < 2 ^ 64")
  case True
  then have "unat (largepage_align_up a) = (unat a + 2097151) div 2097152 * 2097152"
    by (simp add: unat_align_up)
  also have "\<dots> = (unat a div 2097152 + 1) * 2097152"
    using assms by (simp add: div_round_up_unaligned)
  finally have "unat (largepage_align_down a) < unat (largepage_align_up a)"
    by (simp add: unat_align_down)
  then show ?thesis
    by (simp add: word_less_nat_alt)
next
  case False
  have lt: "unat a < 2 ^ 64"
    using unsigned_less [of a] by simp
  have "(unat a + 2097151) mod 2 ^ 64 = unat a + 2097151 - 2 ^ 64"
    using False lt by (simp add: mod_if)
  also have "\<dots> < 2097152"
    using lt by simp
  finally have "unat (largepage_align_up a) = 0"
    by (simp add: unat_align_up)
  then show ?thesis
    by (simp add: unat_eq_0)
qed

lemmas status_defs =
  map_ok_def map_invalid_region_address_def map_region_too_small_def

lemma remap_calls_Move:
  "remap_calls (world_of (MoveRegionToLargePages k r w)) = remap_calls w @ [r]"
  by (simp add: MoveRegionToLargePages_def Let_def sys_mmap_def clean_exit_nmem_def
      clean_exit_tmem_nmem_def sys_munmap_def sys_madvise_def sys_mprotect_def
      split: option.splits prod.splits)

lemma remap_calls_AlignMove:
  "remap_calls (world_of (AlignMoveRegionToLargePages k r w)) =
    (if CheckMemRange (AlignRegionToPageBoundary r) = map_ok
     then remap_calls w @ [AlignRegionToPageBoundary r] else remap_calls w)"
  by (simp add: AlignMoveRegionToLargePages_def Let_def remap_calls_Move)

text \<open>
  Claim C8. When \<^verbatim>\<open>CheckMemRange\<close> returns \<^verbatim>\<open>map_ok\<close> for the range that
  \<^verbatim>\<open>AlignRegionToPageBoundary\<close> produced, both bounds of that range are multiples of the
  huge-page size, \<^verbatim>\<open>from < to\<close>, and the range is at least one huge page long. Every range
  \<^verbatim>\<open>MoveRegionToLargePages\<close> is called with in \<^verbatim>\<open>AlignMoveRegionToLargePages\<close>, its only
  call site, is such a range.
\<close>

theorem validated_range_invariant:
  "(CheckMemRange (AlignRegionToPageBoundary r) = map_ok \<longrightarrow>
      (let r' = AlignRegionToPageBoundary r
       in unat (r_from r') mod unat HPS = 0 \<and> unat (r_to r') mod unat HPS = 0 \<and>
          r_from r' < r_to r' \<and> unat HPS \<le> unat (r_to r') - unat (r_from r')))
   \<and> (\<forall>x \<in> set (drop (length (remap_calls w))
                   (remap_calls (world_of (AlignMoveRegionToLargePages k r w)))).
        unat (r_from x) mod unat HPS = 0 \<and> unat (r_to x) mod unat HPS = 0 \<and>
        r_from x < r_to x \<and> unat HPS \<le> unat (r_to x) - unat (r_from x))"
proof -
  have inv: "unat (r_from r') mod unat HPS = 0 \<and> unat (r_to r') mod unat HPS = 0 \<and>
      r_from r' < r_to r' \<and> unat HPS \<le> unat (r_to r') - unat (r_from r')"
    if ok: "CheckMemRange r' = map_ok" and r': "r' = AlignRegionToPageBoundary r" for r'
  proof -
    have "unat (r_from r') mod unat HPS = 0" "unat (r_to r') mod unat HPS = 0"
      by (simp_all add: r' AlignRegionToPageBoundary_def align_up_aligned align_down_aligned)
    moreover have "r_from r' < r_to r'" "unat (r_from r') + unat HPS \<le> unat (r_to r')"
      using CheckMemRange_ok [OF ok] by simp_all
    ultimately show ?thesis
      by simp
  qed
  show ?thesis
    using inv by (simp add: remap_calls_AlignMove Let_def)
qed

theorem validated_range_invariant_witness:
  "CheckMemRange (AlignRegionToPageBoundary example_text) = map_ok
   \<and> AlignRegionToPageBoundary example_text = \<lparr>r_from = 0x600000, r_to = 0x800000\<rparr>
   \<and> remap_calls (world_of (AlignMoveRegionToLargePages example_kernel example_text example_world))
       = [\<lparr>r_from = 0x600000, r_to = 0x800000\<rparr>]
   \<and> unat (0x600000 :: uintptr_t) mod unat HPS = 0
   \<and> unat (0x800000 :: uintptr_t) mod unat HPS = 0
   \<and> (0x600000 :: uintptr_t) < 0x800000
   \<and> unat HPS \<le> unat (0x800000 :: uintptr_t) - unat (0x600000 :: uintptr_t)"
proof -
  have al: "AlignRegionToPageBoundary example_text = \<lparr>r_from = 0x600000, r_to = 0x800000\<rparr>"
    by (simp add: AlignRegionToPageBoundary_def example_text_def largepage_align_up_def
        largepage_align_down_def HPS_def)
  have ok': "CheckMemRange \<lparr>r_from = 0x600000, r_to = 0x800000\<rparr> = map_ok"
    by (simp add: CheckMemRange_def HPS_def)
  then have ok: "CheckMemRange (AlignRegionToPageBoundary example_text) = map_ok"
    by (simp only: al)
  have calls: "remap_calls
      (world_of (AlignMoveRegionToLargePages example_kernel example_text example_world)) =
      [\<lparr>r_from = 0x600000, r_to = 0x800000\<rparr>]"
    by (simp add: remap_calls_AlignMove ok' al example_world_def)
  have rc: "remap_calls example_world = []"
    by (simp add: example_world_def)
  show ?thesis
    using validated_range_invariant [of example_text example_world example_kernel] ok
    by (simp add: calls al ok' rc unat_HPS)
qed

lemma CheckMemRange_zero_length:
  "CheckMemRange (AlignRegionToPageBoundary \<lparr>r_from = a, r_to = a\<rparr>) =
     (if a \<noteq> 0 \<and> unat a mod unat HPS = 0
      then map_region_too_small else map_invalid_region_address)"
proof (cases "unat a mod 2097152 = 0")
  case True
  then show ?thesis
    by (simp add: AlignRegionToPageBoundary_def align_aligned CheckMemRange_def sint_HPS
        unat_HPS)
next
  case False
  from align_unaligned [OF False] show ?thesis
    using False by (auto simp: AlignRegionToPageBoundary_def CheckMemRange_def unat_HPS)
qed

text \<open>
  Claim C4, as amended. A call \<^verbatim>\<open>MapStaticCodeRangeToLargePages(from, to)\<close> with
  \<^verbatim>\<open>from == to\<close> never calls \<^verbatim>\<open>MoveRegionToLargePages\<close> and leaves the address space as
  it was. Its status is \<^verbatim>\<open>map_region_too_small\<close> when \<^verbatim>\<open>from\<close> is a multiple of the
  huge-page size other than \<^verbatim>\<open>NULL\<close>, and \<^verbatim>\<open>map_invalid_region_address\<close> otherwise: the
  range is aligned before it is checked, which rounds a \<^verbatim>\<open>from\<close> that is not aligned up
  and the equal \<^verbatim>\<open>to\<close> down.
\<close>

theorem zero_length_range:
  "status_of (MapStaticCodeRangeToLargePages k a a w) =
     Some (if a \<noteq> 0 \<and> unat a mod unat HPS = 0
           then map_region_too_small else map_invalid_region_address)
   \<and> remap_calls (world_of (MapStaticCodeRangeToLargePages k a a w)) = remap_calls w
   \<and> mem (world_of (MapStaticCodeRangeToLargePages k a a w)) = mem w"
proof -
  have "CheckMemRange (AlignRegionToPageBoundary \<lparr>r_from = a, r_to = a\<rparr>) \<noteq> map_ok"
    by (simp add: CheckMemRange_zero_length status_defs)
  then show ?thesis
    by (simp add: MapStaticCodeRangeToLargePages_def AlignMoveRegionToLargePages_def Let_def
        CheckMemRange_zero_length)
qed

theorem zero_length_range_witness:
  "status_of (MapStaticCodeRangeToLargePages example_kernel 0x600000 0x600000 example_world) =
     Some map_region_too_small
   \<and> status_of (MapStaticCodeRangeToLargePages example_kernel 0x401000 0x401000 example_world) =
     Some map_invalid_region_address
   \<and> status_of (MapStaticCodeRangeToLargePages example_kernel 0 0 example_world) =
     Some map_invalid_region_address
   \<and> remap_calls
       (world_of (MapStaticCodeRangeToLargePages example_kernel 0x600000 0x600000 example_world))
       = []"
  using zero_length_range [of example_kernel "0x600000" example_world]
    zero_length_range [of example_kernel "0x401000" example_world]
    zero_length_range [of example_kernel 0 example_world]
  by (simp add: HPS_def example_world_def)

text \<open>
  The claim as stated gives \<^verbatim>\<open>map_region_too_small\<close> for every zero-length range. For
  \<^verbatim>\<open>from = to = 0x401000\<close> the aligned range is \<open>0x600000\<close> to \<open>0x400000\<close>, and the status
  is \<^verbatim>\<open>map_invalid_region_address\<close>.
\<close>

theorem zero_length_range_counterexample:
  "status_of (MapStaticCodeRangeToLargePages example_kernel 0x401000 0x401000 example_world) =
     Some map_invalid_region_address
   \<and> map_invalid_region_address \<noteq> map_region_too_small"
  by (simp add: MapStaticCodeRangeToLargePages_def AlignMoveRegionToLargePages_def Let_def
      AlignRegionToPageBoundary_def largepage_align_up_def largepage_align_down_def HPS_def
      CheckMemRange_def status_defs)

section \<open>What a move leaves in the address space\<close>

lemma accessible_map_region_new:
  "f \<in> pr \<Longrightarrow> accessible f (map_region m addr len pr) addr len"
  by (simp add: accessible_def map_region_def)

lemma accessible_map_region_old:
  "accessible f m src n \<Longrightarrow> f \<in> pr \<Longrightarrow> accessible f (map_region m addr len pr) src n"
  by (simp add: accessible_def map_region_def)

lemma accessible_copy_bytes:
  "accessible f m src n \<Longrightarrow> accessible f (copy_bytes m d s l) src n"
  by (auto simp: accessible_def copy_bytes_def split: option.splits)

lemma accessible_advise_region:
  "accessible f m src n \<Longrightarrow> accessible f (advise_region m addr len) src n"
  by (auto simp: accessible_def advise_region_def split: option.splits)

lemma memcpy_to_scratch:
  assumes "accessible PROT_READ m src len"
  shows "memcpy (map_region m nmem len {PROT_READ, PROT_WRITE}) nmem src len =
    Some (copy_bytes (map_region m nmem len {PROT_READ, PROT_WRITE}) nmem src len)"
  using assms
  by (simp add: memcpy_def accessible_map_region_new accessible_map_region_old)

lemma memcpy_from_scratch:
  "memcpy
     (advise_region
        (map_region (copy_bytes (map_region m nmem len {PROT_READ, PROT_WRITE}) nmem src len)
           start len {PROT_READ, PROT_WRITE, PROT_EXEC})
        start len)
     start nmem len =
   Some (copy_bytes
     (advise_region
        (map_region (copy_bytes (map_region m nmem len {PROT_READ, PROT_WRITE}) nmem src len)
           start len {PROT_READ, PROT_WRITE, PROT_EXEC})
        start len)
     start nmem len)"
  by (simp add: memcpy_def accessible_map_region_new accessible_map_region_old
      accessible_copy_bytes accessible_advise_region)

lemmas move_defs =
  MoveRegionToLargePages_def Let_def sys_mmap_def sys_munmap_def sys_madvise_def
  sys_mprotect_def clean_exit_nmem_def clean_exit_tmem_nmem_def

lemma Move_no_scratch:
  assumes "mmap_nmem k = None"
  shows "MoveRegionToLargePages k r w =
    Return map_see_errno (w\<lparr>remap_calls := remap_calls w @ [r]\<rparr>)"
  using assms by (simp add: move_defs)

lemma Move_status:
  assumes "mmap_nmem k = Some nmem"
    and "accessible PROT_READ (mem w) (r_from r) (r_to r - r_from r)"
  shows "status_of (MoveRegionToLargePages k r w) = Some
    (if \<not> mmap_tmem_ok k then
       (if munmap_nmem_ok k then map_see_errno_mmap_tmem_failed
        else map_see_errno_mmap_tmem_munmap_nmem_failed)
     else if \<not> madvise_ok k then
       (if munmap_tmem_ok k
        then (if munmap_nmem_ok k then map_see_errno_madvise_tmem_failed
              else map_see_errno_madvise_tmem_munmap_nmem_failed)
        else (if munmap_nmem_ok k then map_see_errno_madvise_tmem_munmap_tmem_failed
              else map_see_errno_madvise_tmem_munmaps_failed))
     else if \<not> mprotect_ok k then
       (if munmap_tmem_ok k
        then (if munmap_nmem_ok k then map_see_errno_mprotect_failed
              else map_see_errno_mprotect_munmap_nmem_failed)
        else (if munmap_nmem_ok k then map_see_errno_mprotect_munmap_tmem_failed
              else map_see_errno_mprotect_munmaps_failed))
     else if munmap_nmem_ok k then map_ok else map_see_errno_munmap_nmem_failed)"
  using assms
  by (simp add: move_defs memcpy_to_scratch memcpy_from_scratch
      map_see_errno_madvise_tmem_failed_def map_see_errno_madvise_tmem_munmap_tmem_failed_def
      map_see_errno_mprotect_failed_def map_see_errno_mprotect_munmap_tmem_failed_def)

lemmas region_defs =
  map_region_def unmap_region_def advise_region_def protect_region_def copy_bytes_def

lemma disjoint_scratch:
  assumes "accessible PROT_READ m start len"
    and "\<forall>x. in_range nmem len x \<longrightarrow> m x = None"
    and "in_range start len a"
  shows "\<not> in_range nmem len a"
  using assms by (auto simp: accessible_def)

lemma scratch_offset:
  assumes "in_range start len a"
  shows "in_range nmem len (nmem + (a - start))" and "start + (nmem + (a - start) - nmem) = a"
  using assms by (simp_all add: in_range_def)

lemma Move_range_byte:
  assumes nm: "mmap_nmem k = Some nmem"
    and rd: "accessible PROT_READ (mem w) (r_from r) (r_to r - r_from r)"
    and fresh: "\<forall>x. in_range nmem (r_to r - r_from r) x \<longrightarrow> mem w x = None"
    and a: "in_range (r_from r) (r_to r - r_from r) a"
  shows "mem (world_of (MoveRegionToLargePages k r w)) a =
    (if \<not> mmap_tmem_ok k then mem w a
     else if \<not> madvise_ok k then
       (if munmap_tmem_ok k then None
        else Some \<lparr>content = 0, prot = {PROT_READ, PROT_WRITE, PROT_EXEC}, hugepage = False\<rparr>)
     else if \<not> mprotect_ok k then
       (if munmap_tmem_ok k then None
        else Some \<lparr>content = content (the (mem w a)),
                    prot = {PROT_READ, PROT_WRITE, PROT_EXEC}, hugepage = True\<rparr>)
     else Some \<lparr>content = content (the (mem w a)),
                 prot = {PROT_READ, PROT_EXEC}, hugepage = True\<rparr>)"
proof -
  note d1 = disjoint_scratch [OF rd fresh a]
  note o1 = scratch_offset [OF a, of nmem]
  have d2: "\<not> in_range (r_from r) (r_to r - r_from r) (nmem + (a - r_from r))"
    using rd fresh o1(1) by (auto simp: accessible_def)
  show ?thesis
    using nm rd a d1 o1 d2
    by (simp add: move_defs memcpy_to_scratch memcpy_from_scratch) (simp add: region_defs)
qed

lemma Move_scratch_byte:
  assumes nm: "mmap_nmem k = Some nmem"
    and rd: "accessible PROT_READ (mem w) (r_from r) (r_to r - r_from r)"
    and ok: "munmap_nmem_ok k"
    and a: "in_range nmem (r_to r - r_from r) a"
  shows "mem (world_of (MoveRegionToLargePages k r w)) a = None"
  using nm rd ok a
  by (simp add: move_defs memcpy_to_scratch memcpy_from_scratch) (simp add: region_defs)

lemma in_range_iff:
  assumes "unat addr + unat len \<le> 2 ^ 64"
  shows "in_range addr len a \<longleftrightarrow> unat addr \<le> unat a \<and> unat a < unat addr + unat len"
proof
  assume "in_range addr len a"
  then have d: "unat (a - addr) < unat len"
    by (simp add: in_range_def word_less_nat_alt)
  have "unat a = (unat addr + unat (a - addr)) mod 2 ^ 64"
    using unat_word_ariths(1) [of addr "a - addr"] by simp
  also have "\<dots> = unat addr + unat (a - addr)"
    using d assms by simp
  finally show "unat addr \<le> unat a \<and> unat a < unat addr + unat len"
    using d by simp
next
  assume r: "unat addr \<le> unat a \<and> unat a < unat addr + unat len"
  then have "addr \<le> a"
    by (simp add: word_le_nat_alt)
  then have "unat (a - addr) = unat a - unat addr"
    by (rule unat_sub)
  with r have "unat (a - addr) < unat len"
    by linarith
  then show "in_range addr len a"
    by (simp add: in_range_def word_less_nat_alt)
qed

lemmas move_status_defs =
  map_ok_def map_see_errno_def
  map_see_errno_madvise_tmem_failed_def map_see_errno_madvise_tmem_munmap_nmem_failed_def
  map_see_errno_madvise_tmem_munmaps_failed_def map_see_errno_madvise_tmem_munmap_tmem_failed_def
  map_see_errno_mmap_tmem_failed_def map_see_errno_mmap_tmem_munmap_nmem_failed_def
  map_see_errno_mprotect_failed_def map_see_errno_mprotect_munmap_nmem_failed_def
  map_see_errno_mprotect_munmaps_failed_def map_see_errno_mprotect_munmap_tmem_failed_def
  map_see_errno_munmap_nmem_failed_def

lemma fresh_scratchD:
  "fresh_scratch k m len \<Longrightarrow> mmap_nmem k = Some nmem \<Longrightarrow>
    \<forall>x. in_range nmem len x \<longrightarrow> m x = None"
  by (simp add: fresh_scratch_def)

lemma readable_mapped:
  "accessible f m addr len \<Longrightarrow> in_range addr len a \<Longrightarrow> \<exists>b. m a = Some b \<and> f \<in> prot b"
  by (auto simp: accessible_def split: option.splits)

lemma example_range_size: "r_to example_range - r_from example_range = 0x200000"
  by (simp add: example_range_def)

lemma example_accessible:
  "f \<in> {PROT_READ, PROT_EXEC} \<Longrightarrow>
    accessible f (mem example_world) (r_from example_range) (r_to example_range - r_from example_range)"
  unfolding example_range_size
  by (simp add: accessible_def example_world_def example_mem_def example_range_def in_range_iff)

lemma example_fresh:
  "mmap_nmem k = mmap_nmem example_kernel \<Longrightarrow>
    fresh_scratch k (mem example_world) (r_to example_range - r_from example_range)"
  unfolding example_range_size
  by (simp add: fresh_scratch_def example_kernel_def example_world_def example_mem_def
      in_range_iff)

lemma example_byte: "mem example_world 0x600010 =
    Some \<lparr>content = 0x10, prot = {PROT_READ, PROT_EXEC}, hugepage = False\<rparr>"
  by (simp add: example_world_def example_mem_def in_range_def)

text \<open>
  Claim C7. Let the range be readable when \<^verbatim>\<open>MoveRegionToLargePages\<close> is called, and the
  scratch region be placed on unmapped addresses. If the call returns \<^verbatim>\<open>map_ok\<close>, then
  every byte of the range holds what it held before the call, the protection of the range
  is read+execute, and the scratch region is unmapped.
\<close>

theorem move_ok_preserves_code:
  assumes rd: "accessible PROT_READ (mem w) (r_from r) (r_to r - r_from r)"
    and fresh: "fresh_scratch k (mem w) (r_to r - r_from r)"
    and ok: "status_of (MoveRegionToLargePages k r w) = Some map_ok"
  shows "(\<forall>a. in_range (r_from r) (r_to r - r_from r) a \<longrightarrow>
            map_option content (mem (world_of (MoveRegionToLargePages k r w)) a) =
              map_option content (mem w a)
          \<and> map_option prot (mem (world_of (MoveRegionToLargePages k r w)) a) =
              Some {PROT_READ, PROT_EXEC})
       \<and> (\<forall>nmem a. mmap_nmem k = Some nmem \<and> in_range nmem (r_to r - r_from r) a \<longrightarrow>
            mem (world_of (MoveRegionToLargePages k r w)) a = None)"
proof -
  obtain nmem where nm: "mmap_nmem k = Some nmem"
    using ok by (cases "mmap_nmem k") (simp_all add: Move_no_scratch move_status_defs)
  have oks: "mmap_tmem_ok k" "madvise_ok k" "mprotect_ok k" "munmap_nmem_ok k"
    using ok unfolding Move_status [OF nm rd]
    by (simp_all add: move_status_defs split: if_splits)
  have "map_option content (mem (world_of (MoveRegionToLargePages k r w)) a) =
          map_option content (mem w a)
      \<and> map_option prot (mem (world_of (MoveRegionToLargePages k r w)) a) =
          Some {PROT_READ, PROT_EXEC}"
    if a: "in_range (r_from r) (r_to r - r_from r) a" for a
  proof -
    obtain b where b: "mem w a = Some b"
      using readable_mapped [OF rd a] by blast
    show ?thesis
      using oks b by (simp add: Move_range_byte [OF nm rd fresh_scratchD [OF fresh nm] a])
  qed
  moreover have "mem (world_of (MoveRegionToLargePages k r w)) a = None"
    if "mmap_nmem k = Some n" "in_range n (r_to r - r_from r) a" for n a
    using that oks by (simp add: Move_scratch_byte [OF _ rd])
  ultimately show ?thesis
    by blast
qed

theorem move_ok_preserves_code_witness:
  "status_of (MoveRegionToLargePages example_kernel example_range example_world) = Some map_ok
   \<and> map_option content (mem example_world 0x600010) = Some 0x10
   \<and> map_option content
        (mem (world_of (MoveRegionToLargePages example_kernel example_range example_world))
           0x600010) = Some 0x10
   \<and> map_option prot
        (mem (world_of (MoveRegionToLargePages example_kernel example_range example_world))
           0x600010) = Some {PROT_READ, PROT_EXEC}
   \<and> mem (world_of (MoveRegionToLargePages example_kernel example_range example_world))
        0x7f0000000010 = None"
proof -
  have rd: "accessible PROT_READ (mem example_world) (r_from example_range)
      (r_to example_range - r_from example_range)"
    by (rule example_accessible) simp
  have fresh: "fresh_scratch example_kernel (mem example_world)
      (r_to example_range - r_from example_range)"
    by (rule example_fresh) simp
  have ok: "status_of (MoveRegionToLargePages example_kernel example_range example_world) =
      Some map_ok"
    by (simp add: Move_status [OF _ rd] example_kernel_def)
  have a: "in_range (r_from example_range) (r_to example_range - r_from example_range) 0x600010"
    by (simp add: example_range_def in_range_def)
  have n: "mmap_nmem example_kernel = Some 0x7f0000000000 \<and>
      in_range 0x7f0000000000 (r_to example_range - r_from example_range) 0x7f0000000010"
    by (simp add: example_kernel_def example_range_def in_range_def)
  show ?thesis
    using move_ok_preserves_code [OF rd fresh ok] ok a n
    by (simp add: example_byte)
qed

text \<open>
  Claim C9. When the two \<^verbatim>\<open>mmap\<close> calls, \<^verbatim>\<open>madvise\<close> and \<^verbatim>\<open>mprotect\<close> succeed and the final
  \<^verbatim>\<open>munmap\<close> of the scratch region fails, \<^verbatim>\<open>MoveRegionToLargePages\<close> returns
  \<^verbatim>\<open>map_see_errno_munmap_nmem_failed\<close>, and yet the move is complete: every byte of the
  range holds what it held before the call, with read+execute protection and
  \<^verbatim>\<open>MADV_HUGEPAGE\<close> advised.
\<close>

theorem final_release_failure:
  assumes rd: "accessible PROT_READ (mem w) (r_from r) (r_to r - r_from r)"
    and fresh: "fresh_scratch k (mem w) (r_to r - r_from r)"
    and steps: "mmap_nmem k \<noteq> None" "mmap_tmem_ok k" "madvise_ok k" "mprotect_ok k"
    and release: "\<not> munmap_nmem_ok k"
  shows "status_of (MoveRegionToLargePages k r w) = Some map_see_errno_munmap_nmem_failed
       \<and> (\<forall>a. in_range (r_from r) (r_to r - r_from r) a \<longrightarrow>
            map_option content (mem (world_of (MoveRegionToLargePages k r w)) a) =
              map_option content (mem w a)
          \<and> map_option prot (mem (world_of (MoveRegionToLargePages k r w)) a) =
              Some {PROT_READ, PROT_EXEC}
          \<and> map_option hugepage (mem (world_of (MoveRegionToLargePages k r w)) a) =
              Some True)"
proof -
  obtain nmem where nm: "mmap_nmem k = Some nmem"
    using steps(1) by blast
  have "status_of (MoveRegionToLargePages k r w) = Some map_see_errno_munmap_nmem_failed"
    using steps release by (simp add: Move_status [OF nm rd])
  moreover have "map_option content (mem (world_of (MoveRegionToLargePages k r w)) a) =
          map_option content (mem w a)
      \<and> map_option prot (mem (world_of (MoveRegionToLargePages k r w)) a) =
          Some {PROT_READ, PROT_EXEC}
      \<and> map_option hugepage (mem (world_of (MoveRegionToLargePages k r w)) a) =
          Some True"
    if a: "in_range (r_from r) (r_to r - r_from r) a" for a
  proof -
    obtain b where b: "mem w a = Some b"
      using readable_mapped [OF rd a] by blast
    show ?thesis
      using steps b by (simp add: Move_range_byte [OF nm rd fresh_scratchD [OF fresh nm] a])
  qed
  ultimately show ?thesis
    by blast
qed

theorem final_release_failure_witness:
  "status_of (MoveRegionToLargePages (example_kernel\<lparr>munmap_nmem_ok := False\<rparr>)
      example_range example_world) = Some map_see_errno_munmap_nmem_failed
   \<and> map_option content
        (mem (world_of (MoveRegionToLargePages (example_kernel\<lparr>munmap_nmem_ok := False\<rparr>)
           example_range example_world)) 0x600010) = Some 0x10
   \<and> map_option prot
        (mem (world_of (MoveRegionToLargePages (example_kernel\<lparr>munmap_nmem_ok := False\<rparr>)
           example_range example_world)) 0x600010) = Some {PROT_READ, PROT_EXEC}
   \<and> map_option hugepage
        (mem (world_of (MoveRegionToLargePages (example_kernel\<lparr>munmap_nmem_ok := False\<rparr>)
           example_range example_world)) 0x600010) = Some True"
proof -
  have rd: "accessible PROT_READ (mem example_world) (r_from example_range)
      (r_to example_range - r_from example_range)"
    by (rule example_accessible) simp
  have fresh: "fresh_scratch (example_kernel\<lparr>munmap_nmem_ok := False\<rparr>) (mem example_world)
      (r_to example_range - r_from example_range)"
    by (rule example_fresh) simp
  have steps: "mmap_nmem (example_kernel\<lparr>munmap_nmem_ok := False\<rparr>) \<noteq> None"
      "mmap_tmem_ok (example_kernel\<lparr>munmap_nmem_ok := False\<rparr>)"
      "madvise_ok (example_kernel\<lparr>munmap_nmem_ok := False\<rparr>)"
      "mprotect_ok (example_kernel\<lparr>munmap_nmem_ok := False\<rparr>)"
      "\<not> munmap_nmem_ok (example_kernel\<lparr>munmap_nmem_ok := False\<rparr>)"
    by (simp_all add: example_kernel_def)
  have a: "in_range (r_from example_range) (r_to example_range - r_from example_range) 0x600010"
    by (simp add: example_range_def in_range_def)
  show ?thesis
    using final_release_failure [OF rd fresh steps] a
    by (simp add: example_byte)
qed

text \<open>
  Claim C1, as amended. Let the range be mapped read+execute when
  \<^verbatim>\<open>MoveRegionToLargePages\<close> is called, and let the call return a status other than
  \<^verbatim>\<open>map_ok\<close>.
  \<^item> With \<^verbatim>\<open>map_see_errno\<close>, \<^verbatim>\<open>map_see_errno_mmap_tmem_failed\<close> and
    \<^verbatim>\<open>map_see_errno_mmap_tmem_munmap_nmem_failed\<close> the range is as it was before the call.
  \<^item> With \<^verbatim>\<open>map_see_errno_mprotect_munmap_tmem_failed\<close>,
    \<^verbatim>\<open>map_see_errno_mprotect_munmaps_failed\<close> and \<^verbatim>\<open>map_see_errno_munmap_nmem_failed\<close> every
    byte of the range holds what it held before the call and is mapped with execute
    permission.
  \<^item> With \<^verbatim>\<open>map_see_errno_madvise_tmem_munmap_tmem_failed\<close> and
    \<^verbatim>\<open>map_see_errno_madvise_tmem_munmaps_failed\<close> the range is mapped
    read+write+execute, but every byte of it is zero: the code has not been copied back.
  \<^item> With \<^verbatim>\<open>map_see_errno_madvise_tmem_failed\<close>,
    \<^verbatim>\<open>map_see_errno_madvise_tmem_munmap_nmem_failed\<close>, \<^verbatim>\<open>map_see_errno_mprotect_failed\<close> and
    \<^verbatim>\<open>map_see_errno_mprotect_munmap_nmem_failed\<close> every address of the range is unmapped:
    the rollback has released the mapping that replaced the code.
\<close>

theorem failed_move_range:
  assumes rd: "accessible PROT_READ (mem w) (r_from r) (r_to r - r_from r)"
    and ex: "accessible PROT_EXEC (mem w) (r_from r) (r_to r - r_from r)"
    and fresh: "fresh_scratch k (mem w) (r_to r - r_from r)"
    and failed: "status_of (MoveRegionToLargePages k r w) = Some status" "status \<noteq> map_ok"
    and a: "in_range (r_from r) (r_to r - r_from r) a"
  shows "(if status \<in> {map_see_errno_madvise_tmem_failed,
                        map_see_errno_madvise_tmem_munmap_nmem_failed,
                        map_see_errno_mprotect_failed,
                        map_see_errno_mprotect_munmap_nmem_failed}
          then mem (world_of (MoveRegionToLargePages k r w)) a = None
          else if status \<in> {map_see_errno_madvise_tmem_munmap_tmem_failed,
                             map_see_errno_madvise_tmem_munmaps_failed}
          then mem (world_of (MoveRegionToLargePages k r w)) a =
                 Some \<lparr>content = 0, prot = {PROT_READ, PROT_WRITE, PROT_EXEC},
                       hugepage = False\<rparr>
          else map_option content (mem (world_of (MoveRegionToLargePages k r w)) a) =
                 map_option content (mem w a)
               \<and> (case mem (world_of (MoveRegionToLargePages k r w)) a of
                     None \<Rightarrow> False
                   | Some b \<Rightarrow> PROT_EXEC \<in> prot b))
       \<and> (if status \<in> {map_see_errno, map_see_errno_mmap_tmem_failed,
                          map_see_errno_mmap_tmem_munmap_nmem_failed}
          then mem (world_of (MoveRegionToLargePages k r w)) a = mem w a else True)"
proof (cases "mmap_nmem k")
  case None
  obtain b where b: "mem w a = Some b" "PROT_EXEC \<in> prot b"
    using readable_mapped [OF ex a] by blast
  show ?thesis
    using failed b by (simp add: Move_no_scratch [OF None] move_status_defs)
next
  case (Some nmem)
  obtain b where b: "mem w a = Some b" "PROT_EXEC \<in> prot b"
    using readable_mapped [OF ex a] by blast
  have st: "Some status = status_of (MoveRegionToLargePages k r w)"
    using failed(1) by simp
  show ?thesis
    using failed(2) b unfolding Move_range_byte [OF Some rd fresh_scratchD [OF fresh Some] a]
    using st unfolding Move_status [OF Some rd]
    by (simp add: move_status_defs split: if_splits)
qed

text \<open>
  One failure of each kind in the example process, at the address \<open>0x600010\<close>, whose
  byte is \<open>0x10\<close> before the call.
\<close>

theorem failed_move_range_witness:
  "mem example_world 0x600010 =
        Some \<lparr>content = 0x10, prot = {PROT_READ, PROT_EXEC}, hugepage = False\<rparr>
   \<and> status_of (MoveRegionToLargePages (example_kernel\<lparr>mmap_tmem_ok := False\<rparr>)
        example_range example_world) = Some map_see_errno_mmap_tmem_failed
   \<and> mem (world_of (MoveRegionToLargePages (example_kernel\<lparr>mmap_tmem_ok := False\<rparr>)
        example_range example_world)) 0x600010 = mem example_world 0x600010
   \<and> status_of (MoveRegionToLargePages (example_kernel\<lparr>mprotect_ok := False\<rparr>)
        example_range example_world) = Some map_see_errno_mprotect_failed
   \<and> mem (world_of (MoveRegionToLargePages (example_kernel\<lparr>mprotect_ok := False\<rparr>)
        example_range example_world)) 0x600010 = None
   \<and> status_of (MoveRegionToLargePages
        (example_kernel\<lparr>mprotect_ok := False, munmap_tmem_ok := False\<rparr>)
        example_range example_world) = Some map_see_errno_mprotect_munmap_tmem_failed
   \<and> (\<exists>b. mem (world_of (MoveRegionToLargePages
          (example_kernel\<lparr>mprotect_ok := False, munmap_tmem_ok := False\<rparr>)
          example_range example_world)) 0x600010 = Some b
        \<and> content b = 0x10 \<and> PROT_EXEC \<in> prot b)
   \<and> status_of (MoveRegionToLargePages
        (example_kernel\<lparr>madvise_ok := False, munmap_tmem_ok := False\<rparr>)
        example_range example_world) = Some map_see_errno_madvise_tmem_munmap_tmem_failed
   \<and> mem (world_of (MoveRegionToLargePages
        (example_kernel\<lparr>madvise_ok := False, munmap_tmem_ok := False\<rparr>)
        example_range example_world)) 0x600010 =
        Some \<lparr>content = 0, prot = {PROT_READ, PROT_WRITE, PROT_EXEC}, hugepage = False\<rparr>"
proof -
  have rd: "accessible PROT_READ (mem example_world) (r_from example_range)
      (r_to example_range - r_from example_range)"
    by (rule example_accessible) simp
  have ex: "accessible PROT_EXEC (mem example_world) (r_from example_range)
      (r_to example_range - r_from example_range)"
    by (rule example_accessible) simp
  have fresh1: "fresh_scratch (example_kernel\<lparr>mmap_tmem_ok := False\<rparr>) (mem example_world)
      (r_to example_range - r_from example_range)"
    by (rule example_fresh) simp
  have fresh2: "fresh_scratch (example_kernel\<lparr>mprotect_ok := False\<rparr>) (mem example_world)
      (r_to example_range - r_from example_range)"
    by (rule example_fresh) simp
  have fresh3: "fresh_scratch (example_kernel\<lparr>mprotect_ok := False, munmap_tmem_ok := False\<rparr>)
      (mem example_world) (r_to example_range - r_from example_range)"
    by (rule example_fresh) simp
  have fresh4: "fresh_scratch (example_kernel\<lparr>madvise_ok := False, munmap_tmem_ok := False\<rparr>)
      (mem example_world) (r_to example_range - r_from example_range)"
    by (rule example_fresh) simp
  have st1: "status_of (MoveRegionToLargePages (example_kernel\<lparr>mmap_tmem_ok := False\<rparr>)
      example_range example_world) = Some map_see_errno_mmap_tmem_failed"
    by (simp add: Move_status [OF _ rd] example_kernel_def)
  have st2: "status_of (MoveRegionToLargePages (example_kernel\<lparr>mprotect_ok := False\<rparr>)
      example_range example_world) = Some map_see_errno_mprotect_failed"
    by (simp add: Move_status [OF _ rd] example_kernel_def)
  have st3: "status_of (MoveRegionToLargePages
      (example_kernel\<lparr>mprotect_ok := False, munmap_tmem_ok := False\<rparr>)
      example_range example_world) = Some map_see_errno_mprotect_munmap_tmem_failed"
    by (simp add: Move_status [OF _ rd] example_kernel_def)
  have st4: "status_of (MoveRegionToLargePages
      (example_kernel\<lparr>madvise_ok := False, munmap_tmem_ok := False\<rparr>)
      example_range example_world) = Some map_see_errno_madvise_tmem_munmap_tmem_failed"
    by (simp add: Move_status [OF _ rd] example_kernel_def)
  have ne: "map_see_errno_mmap_tmem_failed \<noteq> map_ok" "map_see_errno_mprotect_failed \<noteq> map_ok"
      "map_see_errno_mprotect_munmap_tmem_failed \<noteq> map_ok"
      "map_see_errno_madvise_tmem_munmap_tmem_failed \<noteq> map_ok"
    by (simp_all add: move_status_defs)
  have a: "in_range (r_from example_range) (r_to example_range - r_from example_range) 0x600010"
    by (simp add: example_range_def in_range_def)
  show ?thesis
    using failed_move_range [OF rd ex fresh1 st1 ne(1) a]
      failed_move_range [OF rd ex fresh2 st2 ne(2) a]
      failed_move_range [OF rd ex fresh3 st3 ne(3) a]
      failed_move_range [OF rd ex fresh4 st4 ne(4) a]
    by (auto simp: st1 st2 st3 st4 example_byte move_status_defs split: option.splits)
qed

text \<open>
  The claim as stated keeps the range mapped after every failure. When \<^verbatim>\<open>madvise\<close> fails
  and the two \<^verbatim>\<open>munmap\<close> calls of the rollback succeed, the status is
  \<^verbatim>\<open>map_see_errno_madvise_tmem_failed\<close> and the address \<open>0x600010\<close> of the range is
  unmapped.
\<close>

theorem failed_move_range_counterexample:
  "status_of (MoveRegionToLargePages (example_kernel\<lparr>madvise_ok := False\<rparr>)
      example_range example_world) = Some map_see_errno_madvise_tmem_failed
   \<and> map_see_errno_madvise_tmem_failed \<noteq> map_ok
   \<and> in_range (r_from example_range) (r_to example_range - r_from example_range) 0x600010
   \<and> mem (world_of (MoveRegionToLargePages (example_kernel\<lparr>madvise_ok := False\<rparr>)
        example_range example_world)) 0x600010 = None"
proof -
  have rd: "accessible PROT_READ (mem example_world) (r_from example_range)
      (r_to example_range - r_from example_range)"
    by (rule example_accessible) simp
  have fresh: "\<forall>x. in_range 0x7f0000000000 (r_to example_range - r_from example_range) x \<longrightarrow>
      mem example_world x = None"
    by (rule fresh_scratchD [OF example_fresh [of example_kernel]])
      (simp_all add: example_kernel_def)
  have nm: "mmap_nmem (example_kernel\<lparr>madvise_ok := False\<rparr>) = Some 0x7f0000000000"
    by (simp add: example_kernel_def)
  have a: "in_range (r_from example_range) (r_to example_range - r_from example_range) 0x600010"
    by (simp add: example_range_def in_range_def)
  have "status_of (MoveRegionToLargePages (example_kernel\<lparr>madvise_ok := False\<rparr>)
      example_range example_world) = Some map_see_errno_madvise_tmem_failed"
    unfolding Move_status [OF nm rd] by (simp add: example_kernel_def)
  moreover have "mem (world_of (MoveRegionToLargePages (example_kernel\<lparr>madvise_ok := False\<rparr>)
      example_range example_world)) 0x600010 = None"
    unfolding Move_range_byte [OF nm rd fresh a] by (simp add: example_kernel_def)
  ultimately show ?thesis
    using a by (simp add: move_status_defs)
qed

section \<open>Region discovery\<close>

lemmas find_defs = FindTextRegion_def FindMapping_def Let_def

lemma example_align: "AlignRegionToPageBoundary example_text = example_range"
  by (simp add: AlignRegionToPageBoundary_def example_text_def example_range_def
      largepage_align_up_def largepage_align_down_def HPS_def)

lemma example_check: "CheckMemRange example_range = map_ok"
  by (simp add: CheckMemRange_def example_range_def HPS_def)

lemma example_AlignMove:
  "status_of (AlignMoveRegionToLargePages example_kernel example_text example_world) = Some map_ok
   \<and> remap_calls (world_of (AlignMoveRegionToLargePages example_kernel example_text example_world))
       = [example_range]"
proof -
  have rd: "accessible PROT_READ (mem example_world) (r_from example_range)
      (r_to example_range - r_from example_range)"
    by (rule example_accessible) simp
  have "status_of (MoveRegionToLargePages example_kernel example_range w) = Some map_ok"
    if "mem w = mem example_world" for w
    using rd that by (simp add: Move_status [where nmem = "0x7f0000000000"] example_kernel_def)
  then show ?thesis
    by (simp add: AlignMoveRegionToLargePages_def Let_def example_align example_check
        remap_calls_Move example_world_def)
qed

text \<open>
  Claim C3 at an input where the code departs from it. The process has loaded its main
  executable (whose name is empty) and \<^verbatim>\<open>/usr/lib/libnode.so\<close>; the pattern \<^verbatim>\<open>libfoo\<close>
  matches neither name. \<^verbatim>\<open>FindMapping\<close> takes the entry with the empty name as a match
  all the same, so \<^verbatim>\<open>FindTextRegion\<close> returns \<^verbatim>\<open>map_ok\<close> with the text region of the main
  executable, and \<^verbatim>\<open>MapDSOToLargePages\<close> aligns, validates and remaps it.
\<close>

theorem unmatched_pattern_maps_main_executable:
  "\<not> literal_regex ''libfoo'' ''''
   \<and> \<not> literal_regex ''libfoo'' ''/usr/lib/libnode.so''
   \<and> FindTextRegion example_process (Some ''libfoo'') \<lparr>r_from = 0, r_to = 0\<rparr> =
       (map_ok, example_text)
   \<and> status_of (MapDSOToLargePages example_process example_kernel (Some ''libfoo'') example_world)
       = Some map_ok
   \<and> remap_calls
       (world_of (MapDSOToLargePages example_process example_kernel (Some ''libfoo'') example_world))
       = [example_range]
   \<and> map_ok \<noteq> map_region_not_found"
proof -
  have find: "FindTextRegion example_process (Some ''libfoo'') \<lparr>r_from = 0, r_to = 0\<rparr> =
      (map_ok, example_text)"
    by (simp add: find_defs example_process_def example_exe_def example_text_def
        map_region_not_found_def)
  show ?thesis
    using example_AlignMove
    by (simp add: find MapDSOToLargePages_def map_ok_def map_region_not_found_def)
qed

text \<open>
  Claim C2 at an input where the code departs from it: unmapping the scratch mapping of
  the executable fails. \<^verbatim>\<open>FindMapping\<close> returns \<^verbatim>\<open>map_failed_to_unmap_exe_see_errno\<close>
  without the minus sign of its other error returns; the value is positive, so
  \<^verbatim>\<open>FindTextRegion\<close>, which takes only a negative value for an error, returns \<^verbatim>\<open>map_ok\<close>.
\<close>

theorem unmap_failure_is_swallowed:
  "FindMapping (\<lambda>name. example_exe\<lparr>exe_munmap_ok := False\<rparr>)
      \<lparr>dlpi_name = '''', dlpi_addr = 0\<rparr>
      \<lparr>fp_start = 0, fp_end = 0, fp_regex = (\<lambda>name. False), have_regex = False\<rparr> =
     (map_failed_to_unmap_exe_see_errno,
      \<lparr>fp_start = 0x401000, fp_end = 0x9ff000, fp_regex = (\<lambda>name. False),
       have_regex = False\<rparr>)
   \<and> \<not> map_failed_to_unmap_exe_see_errno < 0
   \<and> FindTextRegion (example_process\<lparr>files := (\<lambda>name. example_exe\<lparr>exe_munmap_ok := False\<rparr>)\<rparr>)
       None \<lparr>r_from = 0, r_to = 0\<rparr> = (map_ok, example_text)
   \<and> map_ok \<noteq> map_failed_to_unmap_exe_see_errno"
  by (simp add: find_defs example_process_def example_exe_def example_text_def
      map_failed_to_unmap_exe_see_errno_def map_ok_def)

end
